theory Spec2Isabelle
  imports Complex_Main "HOL-Library.Sublist" "HOL-Library.Log_Nat"
begin

section \<open>Python values and exceptions\<close>

text \<open>
  The repository passes JSON-shaped Python values around: provider payloads, canonical
  business dictionaries and the result dictionaries of the aggregator. A dictionary is an
  association list in insertion order (keys are strings throughout the code); a float is the
  rational number the double denotes. A string is the list of its code points; the type
  \<open>char\<close> holds the code points U+0000 to U+00FF, and text with code points beyond
  U+00FF is outside the model.
\<close>

datatype pyval =
    PNone
  | PBool bool
  | PInt int
  | PFloat rat
  | PStr string
  | PList "pyval list"
  | PDict "(string \<times> pyval) list"

type_synonym pydict = "(string \<times> pyval) list"

text \<open>The exceptions the modelled code raises or receives; all of them derive from
  Python's \<open>Exception\<close>, so \<open>except Exception\<close> catches each.\<close>

datatype exn =
    ValueError string
  | KeyError string
  | AttributeError
  | TypeError
  | OverflowError string
  | ZeroDivisionError string
  | NameError string
  | RequestException string
  | GenericException string

text \<open>\<open>d[k] = v\<close>: an existing key keeps its position, a new key goes last.\<close>

fun dict_set :: "('k \<times> 'v) list \<Rightarrow> 'k \<Rightarrow> 'v \<Rightarrow> ('k \<times> 'v) list" where
  "dict_set [] k v = [(k, v)]"
| "dict_set ((k', v') # d) k v = (if k' = k then (k, v) # d else (k', v') # dict_set d k v)"

text \<open>\<open>d.get(k)\<close> with Python's \<open>None\<close> for a missing key is \<open>map_of d k\<close>.\<close>

definition dict_get :: "('k \<times> 'v) list \<Rightarrow> 'k \<Rightarrow> 'v option" where
  "dict_get d k = map_of d k"

section \<open>Double-precision arithmetic\<close>

text \<open>
  Python's \<open>float\<close> is the IEEE-754 binary64 format. A finite double is modelled by the
  rational number it denotes, and an arithmetic operation by the exact result rounded to
  the nearest double, ties going to the even significand. \<open>fl_exponent x\<close> is the
  exponent of the binade of \<open>x\<close> (\<open>2 ^ e \<le> |x| < 2 ^ (e + 1)\<close>); a double has 53
  significant bits. Overflow to infinity and the subnormal range are not modelled: the
  amounts and timestamps of this program are many orders of magnitude away from both.
\<close>

definition round_half_even :: "rat \<Rightarrow> int" where
  "round_half_even x =
     (let f = \<lfloor>x\<rfloor>; d = x - of_int f
      in if d < 1/2 then f else if 1/2 < d then f + 1 else if even f then f else f + 1)"

definition fl_exponent :: "rat \<Rightarrow> int" where
  "fl_exponent x =
     (case quotient_of \<bar>x\<bar> of (p, q) \<Rightarrow>
        (let d = int (floorlog 2 (nat p)) - int (floorlog 2 (nat q))
         in if 2 powi d \<le> \<bar>x\<bar> then d else d - 1))"

definition round_double :: "rat \<Rightarrow> rat" where
  "round_double x =
     (if x = 0 then 0
      else of_int (round_half_even (x / 2 powi (fl_exponent x - 52))) * 2 powi (fl_exponent x - 52))"

text \<open>Float addition, subtraction, multiplication and true division; the conversion of a
  Python \<open>int\<close> to \<open>float\<close>.\<close>

definition fadd :: "rat \<Rightarrow> rat \<Rightarrow> rat" where
  "fadd x y = round_double (x + y)"

definition fsub :: "rat \<Rightarrow> rat \<Rightarrow> rat" where
  "fsub x y = round_double (x - y)"

definition fmul :: "rat \<Rightarrow> rat \<Rightarrow> rat" where
  "fmul x y = round_double (x * y)"

definition fdiv :: "rat \<Rightarrow> rat \<Rightarrow> rat" where
  "fdiv x y = round_double (x / y)"

definition float_of_int :: "int \<Rightarrow> rat" where
  "float_of_int n = round_double (of_int n)"

text \<open>\<open>round(x, ndigits)\<close> on a float: the exact value of \<open>x\<close> is rounded to
  \<open>ndigits\<close> decimals, ties to even, and the decimal result is converted back to the
  nearest double.\<close>

definition py_round :: "rat \<Rightarrow> nat \<Rightarrow> rat" where
  "py_round x ndigits = round_double (of_int (round_half_even (x * 10 ^ ndigits)) / 10 ^ ndigits)"

section \<open>Printing numbers\<close>

text \<open>\<open>str(n)\<close> for an integer and the format \<open>.2f\<close> for a float, as the f-strings of
  the alert messages use them.\<close>

definition digit_char :: "nat \<Rightarrow> char" where
  "digit_char d = char_of (48 + d)"

function str_nat :: "nat \<Rightarrow> string" where
  "str_nat n = (if n < 10 then [digit_char n] else str_nat (n div 10) @ [digit_char (n mod 10)])"
  by pat_completeness auto
termination
  by (relation "measure id") auto

declare str_nat.simps [simp del]

definition str_int :: "int \<Rightarrow> string" where
  "str_int i = (if i < 0 then ''-'' @ str_nat (nat (- i)) else str_nat (nat i))"

definition format_2f :: "rat \<Rightarrow> string" where
  "format_2f x =
     (let n = nat (round_half_even (\<bar>x\<bar> * 100))
      in (if x < 0 then ''-'' else []) @ str_nat (n div 100) @ ''.''
         @ [digit_char (n mod 100 div 10), digit_char (n mod 10)])"

section \<open>The capability contract (sources/base.py)\<close>

text \<open>
  \<open>DataSource\<close> is an abstract class with three operations. An adapter is the record of
  its three methods; a method returns its value or the exception it raises. The keyword
  arguments the aggregator passes to \<open>search_businesses\<close> are collected in
  \<open>search_args\<close> (the aggregator never passes \<open>radius\<close>).
\<close>

record search_args =
  arg_location :: string
  arg_query :: string
  arg_category :: string
  arg_limit :: int

record data_source =
  search_businesses :: "search_args \<Rightarrow> exn + pydict list"
  get_business_details :: "string \<Rightarrow> exn + pydict option"
  get_reviews :: "string \<Rightarrow> int \<Rightarrow> exn + pydict list"

text \<open>Every call that reaches an adapter is recorded, with the name of the source it went
  to and the arguments it carried.\<close>

datatype call =
    SearchCall string search_args
  | DetailsCall string string
  | ReviewsCall string string int

section \<open>The aggregator (services/data\_collector.py)\<close>

record DataCollector =
  sources :: "(string \<times> data_source) list"

definition get_available_sources :: "DataCollector \<Rightarrow> string list" where
  "get_available_sources dc = map fst (sources dc)"

definition get_primary_source :: "DataCollector \<Rightarrow> string" where
  "get_primary_source dc =
     (if ''foursquare'' \<in> set (get_available_sources dc) then ''foursquare'' else ''mock'')"

text \<open>Python's \<open>repr\<close> of a list of plain strings, as the f-string of the error message
  prints it.\<close>

fun join_commas :: "string list \<Rightarrow> string" where
  "join_commas [] = []"
| "join_commas [s] = s"
| "join_commas (s # t # ss) = s @ '', '' @ join_commas (t # ss)"

definition repr_names :: "string list \<Rightarrow> string" where
  "repr_names ns = ''['' @ join_commas (map (\<lambda>n. [CHR 0x27] @ n @ [CHR 0x27]) ns) @ '']''"

definition resolve_source :: "DataCollector \<Rightarrow> string \<Rightarrow> string" where
  "resolve_source dc source = (if source = ''auto'' then get_primary_source dc else source)"

definition search_result :: "string \<Rightarrow> string \<Rightarrow> string \<Rightarrow> string \<Rightarrow> string \<Rightarrow> pydict list \<Rightarrow> pydict" where
  "search_result now source location query category businesses =
     [(''success'', PBool True),
      (''source'', PStr source),
      (''location'', PStr location),
      (''query'', PStr query),
      (''category'', PStr category),
      (''count'', PInt (int (length businesses))),
      (''businesses'', PList (map PDict businesses)),
      (''timestamp'', PStr now),
      (''cache_info'', PDict [(''cached'', PBool False),
                              (''source'', PStr (if source \<noteq> ''mock'' then ''live_api'' else ''generated''))])]"

text \<open>
  \<open>collect_businesses\<close>: \<open>now\<close> is the reading of the clock that \<open>_get_timestamp\<close>
  returns. The result is the list of adapter calls made, in order, and the returned
  dictionary or the exception that leaves the method.
\<close>

function collect_businesses ::
  "string \<Rightarrow> DataCollector \<Rightarrow> string \<Rightarrow> string \<Rightarrow> string \<Rightarrow> string \<Rightarrow> int
     \<Rightarrow> call list \<times> (exn + pydict)" where
  "collect_businesses now dc location source query category limit =
     (case map_of (sources dc) (resolve_source dc source) of
        None \<Rightarrow>
          ([], Inl (ValueError (''Source '' @ [CHR 0x27] @ resolve_source dc source @ [CHR 0x27]
                      @ '' not available. Available: '' @ repr_names (get_available_sources dc))))
      | Some ds \<Rightarrow>
          (case search_businesses ds
                  \<lparr>arg_location = location, arg_query = query, arg_category = category, arg_limit = limit\<rparr> of
             Inr businesses \<Rightarrow>
               ([SearchCall (resolve_source dc source)
                   \<lparr>arg_location = location, arg_query = query, arg_category = category, arg_limit = limit\<rparr>],
                Inr (search_result now (resolve_source dc source) location query category
                       (map (\<lambda>business. dict_set business ''data_source'' (PStr (resolve_source dc source)))
                            businesses)))
           | Inl e \<Rightarrow>
               (if resolve_source dc source \<noteq> ''mock'' \<and> ''mock'' \<in> set (map fst (sources dc))
                then (case collect_businesses now dc location ''mock'' query category limit of
                        (calls, r) \<Rightarrow>
                          (SearchCall (resolve_source dc source)
                             \<lparr>arg_location = location, arg_query = query, arg_category = category, arg_limit = limit\<rparr>
                           # calls, r))
                else ([SearchCall (resolve_source dc source)
                         \<lparr>arg_location = location, arg_query = query, arg_category = category, arg_limit = limit\<rparr>],
                      Inl e))))"
  by pat_completeness auto
termination
  by (relation "measure (\<lambda>(now, dc, location, source, query, category, limit).
                   if source = ''mock'' then 0 else 1)")
     (auto simp: resolve_source_def split: if_splits)

declare collect_businesses.simps [simp del]


text \<open>
  \<open>get_business_details\<close> and \<open>get_business_reviews\<close> of the aggregator. An empty
  dictionary is falsy in Python, so it is returned without the source tag.
\<close>

definition DataCollector_get_business_details ::
  "DataCollector \<Rightarrow> string \<Rightarrow> string \<Rightarrow> call list \<times> (exn + pydict option)" where
  "DataCollector_get_business_details dc business_id source =
     (case map_of (sources dc) source of
        None \<Rightarrow> ([], Inr None)
      | Some ds \<Rightarrow>
          ([DetailsCall source business_id],
           (case get_business_details ds business_id of
              Inr details \<Rightarrow>
                Inr (case details of
                       None \<Rightarrow> None
                     | Some d \<Rightarrow> if d \<noteq> [] then Some (dict_set d ''data_source'' (PStr source)) else Some d)
            | Inl e \<Rightarrow> Inr None)))"

definition DataCollector_get_business_reviews ::
  "DataCollector \<Rightarrow> string \<Rightarrow> string \<Rightarrow> int \<Rightarrow> call list \<times> (exn + pydict list)" where
  "DataCollector_get_business_reviews dc business_id source limit =
     (case map_of (sources dc) source of
        None \<Rightarrow> ([], Inr [])
      | Some ds \<Rightarrow>
          ([ReviewsCall source business_id limit],
           (case get_reviews ds business_id limit of
              Inr reviews \<Rightarrow> Inr (map (\<lambda>review. dict_set review ''data_source'' (PStr source)) reviews)
            | Inl e \<Rightarrow> Inr [])))"

text \<open>Two adapters to run the aggregator on: one whose every operation raises, one whose
  every operation returns fixed data.\<close>

definition raising_source :: "exn \<Rightarrow> data_source" where
  "raising_source e =
     \<lparr>search_businesses = (\<lambda>_. Inl e), get_business_details = (\<lambda>_. Inl e), get_reviews = (\<lambda>_ _. Inl e)\<rparr>"

definition canned_source :: "pydict list \<Rightarrow> data_source" where
  "canned_source bs =
     \<lparr>search_businesses = (\<lambda>_. Inr bs),
      get_business_details = (\<lambda>_. Inr (case bs of [] \<Rightarrow> None | b # _ \<Rightarrow> Some b)),
      get_reviews = (\<lambda>_ _. Inr bs)\<rparr>"

section \<open>Competitor analysis (services/data\_collector.py)\<close>

text \<open>
  The pieces of Python that \<open>collect_competitors\<close> relies on, as CPython 3.12 on a
  platform with a 64-bit C \<open>long\<close> computes them (the repository's f-strings need 3.12).
  \<open>str.lower\<close> maps the capital letters among the code points up to U+00FF, that is
  A to Z and U+00C0 to U+00DE without the multiplication sign U+00D7, to the letter 32
  places on, and leaves every other code point of that range alone.
\<close>

fun py_truthy :: "pyval \<Rightarrow> bool" where
  "py_truthy PNone = False"
| "py_truthy (PBool b) = b"
| "py_truthy (PInt i) = (i \<noteq> 0)"
| "py_truthy (PFloat x) = (x \<noteq> 0)"
| "py_truthy (PStr s) = (s \<noteq> [])"
| "py_truthy (PList xs) = (xs \<noteq> [])"
| "py_truthy (PDict d) = (d \<noteq> [])"

definition lower_char :: "char \<Rightarrow> char" where
  "lower_char c =
     (if ((65::nat) \<le> of_char c \<and> of_char c \<le> (90::nat))
         \<or> ((192::nat) \<le> of_char c \<and> of_char c \<le> (214::nat))
         \<or> ((216::nat) \<le> of_char c \<and> of_char c \<le> (222::nat))
      then char_of (of_char c + (32::nat)) else c)"

definition py_lower :: "string \<Rightarrow> string" where
  "py_lower s = map lower_char s"

text \<open>
  The value a sum carries is an \<open>int\<close> or a \<open>float\<close>. Converting an \<open>int\<close> to a
  \<open>float\<close> raises \<open>OverflowError\<close> when the integer, rounded to 53 bits, reaches
  \<open>2 ^ 1024\<close>. \<open>num_add r x\<close> is \<open>r + x\<close> for such a value \<open>r\<close>: \<open>bool\<close> counts
  as an integer, an \<open>int\<close> meets a \<open>float\<close> after conversion, and anything else cannot
  be added to a number.
\<close>

datatype number = NInt int | NFloat rat

fun pyval_of :: "number \<Rightarrow> pyval" where
  "pyval_of (NInt i) = PInt i"
| "pyval_of (NFloat x) = PFloat x"

definition float_overflows :: "rat \<Rightarrow> bool" where
  "float_overflows v = (2 ^ 1024 \<le> \<bar>round_double v\<bar>)"

definition int_to_float :: "int \<Rightarrow> exn + rat" where
  "int_to_float i =
     (if float_overflows (of_int i) then Inl (OverflowError ''int too large to convert to float'')
      else Inr (round_double (of_int i)))"

fun num_add :: "number \<Rightarrow> pyval \<Rightarrow> exn + number" where
  "num_add (NInt a) (PInt b) = Inr (NInt (a + b))"
| "num_add (NInt a) (PBool b) = Inr (NInt (a + (if b then 1 else 0)))"
| "num_add (NInt a) (PFloat y) =
     (case int_to_float a of Inl e \<Rightarrow> Inl e | Inr x \<Rightarrow> Inr (NFloat (fadd x y)))"
| "num_add (NFloat x) (PInt b) =
     (case int_to_float b of Inl e \<Rightarrow> Inl e | Inr y \<Rightarrow> Inr (NFloat (fadd x y)))"
| "num_add (NFloat x) (PBool b) = Inr (NFloat (fadd x (if b then 1 else 0)))"
| "num_add (NFloat x) (PFloat y) = Inr (NFloat (fadd x y))"
| "num_add r v = Inl TypeError"

text \<open>
  \<open>sum(xs)\<close>, following \<open>builtin_sum_impl\<close>. It starts from the integer 0 and runs
  through three loops. While the total is an integer that fits a C \<open>long\<close> and the item
  is an \<open>int\<close> or \<open>bool\<close> that keeps it so, the item is added (\<open>sum_ints\<close>). The first
  other item is added with \<open>+\<close>; when that gives a \<open>float\<close>, the second loop
  (\<open>sum_floats\<close>) adds floats with Neumaier's compensation, \<open>c\<close> collecting the rounding
  errors, and adds an integer that fits a \<open>long\<close> after conversion, without
  compensation. On any other item it folds the compensation in, adds the item with \<open>+\<close>
  and hands over to the plain loop (\<open>sum_rest\<close>), which is also where an integer total
  that has outgrown the \<open>long\<close> continues.
\<close>

definition fits_long :: "int \<Rightarrow> bool" where
  "fits_long i = (- (2 ^ 63) \<le> i \<and> i < 2 ^ 63)"

fun sum_rest :: "number \<Rightarrow> pyval list \<Rightarrow> exn + number" where
  "sum_rest r [] = Inr r"
| "sum_rest r (x # xs) =
     (case num_add r x of Inl e \<Rightarrow> Inl e | Inr r' \<Rightarrow> sum_rest r' xs)"

definition compensated :: "rat \<Rightarrow> rat \<Rightarrow> rat" where
  "compensated f c = (if c \<noteq> 0 then fadd f c else f)"

fun sum_floats :: "rat \<Rightarrow> rat \<Rightarrow> pyval list \<Rightarrow> exn + number" where
  "sum_floats f c [] = Inr (NFloat (compensated f c))"
| "sum_floats f c (PFloat x # xs) =
     sum_floats (fadd f x)
       (fadd c (if \<bar>f\<bar> \<ge> \<bar>x\<bar> then fadd (fsub f (fadd f x)) x else fadd (fsub x (fadd f x)) f))
       xs"
| "sum_floats f c (PInt b # xs) =
     (if fits_long b then sum_floats (fadd f (round_double (of_int b))) c xs
      else (case num_add (NFloat (compensated f c)) (PInt b) of
              Inl e \<Rightarrow> Inl e
            | Inr r \<Rightarrow> sum_rest r xs))"
| "sum_floats f c (PBool b # xs) = sum_floats (fadd f (if b then 1 else 0)) c xs"
| "sum_floats f c (x # xs) =
     (case num_add (NFloat (compensated f c)) x of
        Inl e \<Rightarrow> Inl e
      | Inr r \<Rightarrow> sum_rest r xs)"

text \<open>After the first loop has added an item with \<open>+\<close>: a \<open>float\<close> total enters the
  second loop, with no compensation yet; any other total goes to the plain loop.\<close>

definition sum_onwards :: "exn + number \<Rightarrow> pyval list \<Rightarrow> exn + number" where
  "sum_onwards r xs =
     (case r of
        Inl e \<Rightarrow> Inl e
      | Inr (NFloat f) \<Rightarrow> sum_floats f 0 xs
      | Inr (NInt i) \<Rightarrow> sum_rest (NInt i) xs)"

fun sum_ints :: "int \<Rightarrow> pyval list \<Rightarrow> exn + number" where
  "sum_ints i [] = Inr (NInt i)"
| "sum_ints i (PInt b # xs) =
     (if fits_long b \<and> fits_long (i + b) then sum_ints (i + b) xs
      else sum_onwards (num_add (NInt i) (PInt b)) xs)"
| "sum_ints i (PBool b # xs) =
     (if fits_long (i + (if b then 1 else 0)) then sum_ints (i + (if b then 1 else 0)) xs
      else sum_onwards (num_add (NInt i) (PBool b)) xs)"
| "sum_ints i (x # xs) = sum_onwards (num_add (NInt i) x) xs"

definition py_sum :: "pyval list \<Rightarrow> exn + number" where
  "py_sum xs = sum_ints 0 xs"

text \<open>\<open>total / n\<close> for the result of a sum and a length: true division. The quotient of two
  integers is rounded once, and is an \<open>OverflowError\<close> when it is too large for a
  \<open>float\<close>; a \<open>float\<close> is divided by the converted length.\<close>

fun py_truediv :: "number \<Rightarrow> nat \<Rightarrow> exn + number" where
  "py_truediv (NInt a) n =
     (if n = 0 then Inl (ZeroDivisionError ''division by zero'')
      else if float_overflows (of_int a / of_nat n)
      then Inl (OverflowError ''integer division result too large for a float'')
      else Inr (NFloat (round_double (of_int a / of_nat n))))"
| "py_truediv (NFloat x) n =
     (if n = 0 then Inl (ZeroDivisionError ''float division by zero'')
      else (case int_to_float (int n) of Inl e \<Rightarrow> Inl e | Inr y \<Rightarrow> Inr (NFloat (fdiv x y))))"

text \<open>\<open>round(v, ndigits)\<close>: an integer is returned as it is, a float is rounded.\<close>

fun py_round_num :: "number \<Rightarrow> nat \<Rightarrow> number" where
  "py_round_num (NInt a) ndigits = NInt a"
| "py_round_num (NFloat x) ndigits = NFloat (py_round x ndigits)"

text \<open>\<open>xs[:n]\<close>: a negative \<open>n\<close> counts from the end.\<close>

definition py_slice_to :: "'a list \<Rightarrow> int \<Rightarrow> 'a list" where
  "py_slice_to xs n = (if 0 \<le> n then take (nat n) xs else take (length xs - nat (- n)) xs)"

text \<open>\<open>business['name'].lower()\<close>: a missing key raises \<open>KeyError\<close>, a value that is
  not a string has no \<open>lower\<close>.\<close>

definition business_name_lower :: "pydict \<Rightarrow> exn + string" where
  "business_name_lower business =
     (case dict_get business ''name'' of
        None \<Rightarrow> Inl (KeyError ''name'')
      | Some (PStr s) \<Rightarrow> Inr (py_lower s)
      | Some _ \<Rightarrow> Inl AttributeError)"

text \<open>The loop that keeps a business unless the lower-cased target name occurs in its
  lower-cased name; it stops at the first business whose name cannot be read.\<close>

fun filter_competitors :: "string \<Rightarrow> pydict list \<Rightarrow> exn + pydict list" where
  "filter_competitors business_name [] = Inr []"
| "filter_competitors business_name (business # rest) =
     (case business_name_lower business of
        Inl e \<Rightarrow> Inl e
      | Inr name \<Rightarrow>
          (case filter_competitors business_name rest of
             Inl e \<Rightarrow> Inl e
           | Inr competitors \<Rightarrow>
               Inr (if \<not> sublist (py_lower business_name) name
                    then business # competitors else competitors)))"

text \<open>\<open>[b.get('rating', 0) for b in competitors if b.get('rating')]\<close>\<close>

definition ratings_of :: "pydict list \<Rightarrow> pyval list" where
  "ratings_of competitors =
     concat (map (\<lambda>b. case dict_get b ''rating'' of
                         None \<Rightarrow> []
                       | Some v \<Rightarrow> if py_truthy v then [v] else [])
                 competitors)"

text \<open>\<open>[b.get('stats', {}).get('tip_count', 0) for b in competitors]\<close>\<close>

definition tip_count_of :: "pydict \<Rightarrow> exn + pyval" where
  "tip_count_of b =
     (case dict_get b ''stats'' of
        None \<Rightarrow> Inr (PInt 0)
      | Some (PDict stats) \<Rightarrow> Inr (case dict_get stats ''tip_count'' of None \<Rightarrow> PInt 0 | Some v \<Rightarrow> v)
      | Some _ \<Rightarrow> Inl AttributeError)"

fun review_counts_of :: "pydict list \<Rightarrow> exn + pyval list" where
  "review_counts_of [] = Inr []"
| "review_counts_of (b # bs) =
     (case tip_count_of b of
        Inl e \<Rightarrow> Inl e
      | Inr v \<Rightarrow> (case review_counts_of bs of Inl e \<Rightarrow> Inl e | Inr vs \<Rightarrow> Inr (v # vs)))"

text \<open>\<open>sum(xs) / len(xs) if xs else 0\<close>\<close>

definition py_mean :: "pyval list \<Rightarrow> exn + number" where
  "py_mean xs =
     (if xs = [] then Inr (NInt 0)
      else (case py_sum xs of Inl e \<Rightarrow> Inl e | Inr s \<Rightarrow> py_truediv s (length xs)))"

text \<open>The \<open>Simple analysis\<close> block: the two averages, before rounding.\<close>

definition competitor_averages :: "pydict list \<Rightarrow> exn + (number \<times> number)" where
  "competitor_averages competitors =
     (if competitors \<noteq> []
      then (case py_mean (ratings_of competitors) of
              Inl e \<Rightarrow> Inl e
            | Inr avg_rating \<Rightarrow>
                (case review_counts_of competitors of
                   Inl e \<Rightarrow> Inl e
                 | Inr review_counts \<Rightarrow>
                     (case py_mean review_counts of
                        Inl e \<Rightarrow> Inl e
                      | Inr avg_reviews \<Rightarrow> Inr (avg_rating, avg_reviews))))
      else Inr (NInt 0, NInt 0))"

text \<open>\<open>search_results['businesses']\<close> and \<open>search_results['source']\<close>, read from the
  dictionary that \<open>collect_businesses\<close> built.\<close>

definition result_businesses :: "pydict \<Rightarrow> pydict list" where
  "result_businesses r =
     (case dict_get r ''businesses'' of
        Some (PList vs) \<Rightarrow> concat (map (\<lambda>v. case v of PDict d \<Rightarrow> [d] | _ \<Rightarrow> []) vs)
      | _ \<Rightarrow> [])"

definition result_source :: "pydict \<Rightarrow> pyval" where
  "result_source r = (case dict_get r ''source'' of Some v \<Rightarrow> v | None \<Rightarrow> PNone)"

definition collect_competitors ::
  "string \<Rightarrow> DataCollector \<Rightarrow> string \<Rightarrow> string \<Rightarrow> string \<Rightarrow> int \<Rightarrow> call list \<times> (exn + pydict)" where
  "collect_competitors now dc business_name location category limit =
     (case collect_businesses now dc location ''auto'' category [] (limit * 2) of
        (calls, Inl e) \<Rightarrow> (calls, Inl e)
      | (calls, Inr search_results) \<Rightarrow>
          (calls,
           (case filter_competitors business_name (result_businesses search_results) of
              Inl e \<Rightarrow> Inl e
            | Inr filtered \<Rightarrow>
                (case competitor_averages (py_slice_to filtered limit) of
                   Inl e \<Rightarrow> Inl e
                 | Inr (avg_rating, avg_reviews) \<Rightarrow>
                     Inr [(''success'', PBool True),
                          (''source'', result_source search_results),
                          (''target_business'', PStr business_name),
                          (''competitors_count'', PInt (int (length (py_slice_to filtered limit)))),
                          (''competitors'', PList (map PDict (py_slice_to filtered limit))),
                          (''analysis'',
                           PDict [(''average_competitor_rating'', pyval_of (py_round_num avg_rating 2)),
                                  (''average_competitor_reviews'', pyval_of (py_round_num avg_reviews 0)),
                                  (''market_saturation'',
                                   PInt (int (length (py_slice_to filtered limit))))])]))))"

text \<open>
  The search results the analysis is stated for. A number is an integer below \<open>2 ^ 63\<close> in
  magnitude, or a double that is zero or lies between \<open>2 powi (- 256)\<close> and \<open>2 ^ 256\<close>
  in magnitude. A business has a string for its name, a rating that is absent, \<open>None\<close>
  or such a number, and \<open>stats\<close> that are absent or a dictionary whose \<open>tip_count\<close> is
  absent or such a number. With at most \<open>2 ^ 32\<close> such businesses every conversion to
  \<open>float\<close> succeeds and no operation of the analysis leaves the range of the finite,
  normal doubles, where the arithmetic above is the machine's.
\<close>

fun plain_number :: "pyval \<Rightarrow> bool" where
  "plain_number (PInt i) = (\<bar>i\<bar> < 2 ^ 63)"
| "plain_number (PFloat x) =
     (round_double x = x \<and> (x = 0 \<or> (2 powi (- 256) \<le> \<bar>x\<bar> \<and> \<bar>x\<bar> \<le> 2 ^ 256)))"
| "plain_number v = False"

definition well_shaped :: "pydict \<Rightarrow> bool" where
  "well_shaped b =
     ((case dict_get b ''name'' of Some (PStr s) \<Rightarrow> True | _ \<Rightarrow> False)
      \<and> (case dict_get b ''rating'' of None \<Rightarrow> True | Some PNone \<Rightarrow> True | Some v \<Rightarrow> plain_number v)
      \<and> (case dict_get b ''stats'' of
            None \<Rightarrow> True
          | Some (PDict stats) \<Rightarrow> (case dict_get stats ''tip_count'' of None \<Rightarrow> True | Some v \<Rightarrow> plain_number v)
          | Some _ \<Rightarrow> False))"

definition name_of :: "pydict \<Rightarrow> string" where
  "name_of b = (case dict_get b ''name'' of Some (PStr s) \<Rightarrow> s | _ \<Rightarrow> [])"

definition tips_of :: "pydict \<Rightarrow> pyval" where
  "tips_of b =
     (case dict_get b ''stats'' of
        Some (PDict stats) \<Rightarrow> (case dict_get stats ''tip_count'' of None \<Rightarrow> PInt 0 | Some v \<Rightarrow> v)
      | _ \<Rightarrow> PInt 0)"

text \<open>The competitors the claim describes: the results whose name does not contain the
  target name, case ignored, cut to the limit.\<close>

definition remaining_competitors :: "string \<Rightarrow> int \<Rightarrow> pydict list \<Rightarrow> pydict list" where
  "remaining_competitors business_name limit results =
     py_slice_to (filter (\<lambda>b. \<not> sublist (py_lower business_name) (py_lower (name_of b))) results) limit"

text \<open>The integers of a list, added up in absolute value: a bound on every integer that a
  sum over the list can come to hold.\<close>

fun int_mass :: "pyval list \<Rightarrow> int" where
  "int_mass [] = 0"
| "int_mass (PInt i # xs) = \<bar>i\<bar> + int_mass xs"
| "int_mass (x # xs) = int_mass xs"

fun num_mass :: "number \<Rightarrow> int" where
  "num_mass (NInt i) = \<bar>i\<bar>"
| "num_mass (NFloat x) = 0"

section \<open>The HTTP views (views.py)\<close>

text \<open>
  Each view constructs a \<open>DataCollector\<close>, whose sources depend on the Django settings. A
  deployment gives the settings, the behaviour of the two adapters once constructed, and
  the timestamp the clock gives. \<open>None\<close> is a setting whose value is \<open>None\<close>; for the
  client id and the API key, which the code probes with \<open>hasattr\<close>, it is also a setting
  that is not defined.
\<close>

record settings =
  FOURSQUARE_CLIENT_ID :: "string option"
  FOURSQUARE_CLIENT_SECRET :: "string option"
  FOURSQUARE_API_KEY :: "string option"
  DEFAULT_LOCATION :: string

record deployment =
  conf :: settings
  mock_adapter :: data_source
  foursquare_adapter :: data_source
  timestamp_now :: string

definition truthy_setting :: "string option \<Rightarrow> bool" where
  "truthy_setting s = (case s of None \<Rightarrow> False | Some v \<Rightarrow> v \<noteq> [])"

text \<open>\<open>FoursquareSource.__init__\<close> raises unless an API key, or a client id with a client
  secret, is configured; \<open>_initialize_sources\<close> catches that and keeps Mock alone.\<close>

definition FoursquareSource_constructible :: "settings \<Rightarrow> bool" where
  "FoursquareSource_constructible s =
     (\<not> (\<not> truthy_setting (FOURSQUARE_API_KEY s)
          \<and> (\<not> truthy_setting (FOURSQUARE_CLIENT_ID s) \<or> \<not> truthy_setting (FOURSQUARE_CLIENT_SECRET s))))"

definition initialize_sources :: "deployment \<Rightarrow> DataCollector" where
  "initialize_sources d =
     \<lparr>sources =
        (''mock'', mock_adapter d)
        # (if truthy_setting (FOURSQUARE_CLIENT_ID (conf d))
               \<and> FOURSQUARE_CLIENT_ID (conf d) \<noteq> Some ''your-client-id-here''
               \<and> FoursquareSource_constructible (conf d)
           then [(''foursquare'', foursquare_adapter d)] else [])\<rparr>"

text \<open>The query parameter \<open>limit\<close>: absent, text that \<open>int()\<close> reads as the given
  integer, or text that \<open>int()\<close> rejects with \<open>ValueError\<close>.\<close>

datatype limit_param = NoLimit | IntLimit int | BadLimit

definition parse_limit :: "limit_param \<Rightarrow> int \<Rightarrow> exn + int" where
  "parse_limit p default_limit =
     (case p of
        NoLimit \<Rightarrow> Inr default_limit
      | IntLimit i \<Rightarrow> Inr i
      | BadLimit \<Rightarrow> Inl (ValueError ''invalid literal for int() with base 10''))"

definition exn_str :: "exn \<Rightarrow> string" where
  "exn_str e =
     (case e of
        ValueError m \<Rightarrow> m
      | KeyError k \<Rightarrow> [CHR 0x27] @ k @ [CHR 0x27]
      | AttributeError \<Rightarrow> ''object has no attribute''
      | TypeError \<Rightarrow> ''unsupported operand type(s)''
      | OverflowError msg \<Rightarrow> msg
      | ZeroDivisionError msg \<Rightarrow> msg
      | NameError v \<Rightarrow> ''cannot access local variable '' @ v
      | RequestException m \<Rightarrow> m
      | GenericException m \<Rightarrow> m)"

datatype response = Response pydict nat

definition error_response :: "exn \<Rightarrow> response" where
  "error_response e = Response [(''error'', PStr (exn_str e)), (''success'', PBool False)] 500"

record search_request =
  search_location :: "string option"
  search_source :: "string option"
  search_query :: "string option"
  search_category :: "string option"
  search_limit :: limit_param

definition param_or :: "string option \<Rightarrow> string \<Rightarrow> string" where
  "param_or p d = (case p of None \<Rightarrow> d | Some v \<Rightarrow> v)"

definition BusinessSearchView_get :: "deployment \<Rightarrow> search_request \<Rightarrow> call list \<times> response" where
  "BusinessSearchView_get d request =
     (case parse_limit (search_limit request) 10 of
        Inl e \<Rightarrow> ([], error_response e)
      | Inr limit \<Rightarrow>
          (case collect_businesses (timestamp_now d) (initialize_sources d)
                  (param_or (search_location request) (DEFAULT_LOCATION (conf d)))
                  (param_or (search_source request) ''auto'')
                  (param_or (search_query request) [])
                  (param_or (search_category request) [])
                  (min (max limit 1) 50) of
             (calls, Inr result) \<Rightarrow> (calls, Response result 200)
           | (calls, Inl e) \<Rightarrow> (calls, error_response e)))"

record competitor_request =
  competitor_business :: "string option"
  competitor_location :: "string option"
  competitor_category :: "string option"
  competitor_limit :: limit_param

definition CompetitorAnalysisView_get :: "deployment \<Rightarrow> competitor_request \<Rightarrow> call list \<times> response" where
  "CompetitorAnalysisView_get d request =
     (case parse_limit (competitor_limit request) 5 of
        Inl e \<Rightarrow> ([], error_response e)
      | Inr limit \<Rightarrow>
          (if param_or (competitor_business request) [] = []
           then ([], Response [(''error'', PStr ''Business name is required''), (''success'', PBool False)] 400)
           else (case collect_competitors (timestamp_now d) (initialize_sources d)
                        (param_or (competitor_business request) [])
                        (param_or (competitor_location request) (DEFAULT_LOCATION (conf d)))
                        (param_or (competitor_category request) [])
                        limit of
                   (calls, Inr result) \<Rightarrow> (calls, Response result 200)
                 | (calls, Inl e) \<Rightarrow> (calls, error_response e))))"

section \<open>The budget governor (budget\_control.py)\<close>

text \<open>
  \<open>budget_data\<close> is the dictionary that is kept in memory and dumped to
  \<open>data/api_budget.json\<close>. The file is modelled by its parsed content, \<open>None\<close> while it
  does not exist; \<open>json.dump\<close> followed by \<open>json.load\<close> gives back the same
  dictionary (Python prints a float with the shortest digits that read back to it).
  \<open>today\<close> is the reading of the calendar, \<open>datetime.now().strftime('%Y-%m-%d')\<close>.
\<close>

record budget_state =
  total_cost :: rat
  daily_usage :: "(string \<times> (string \<times> int) list) list"
  monthly_usage :: pydict
  alerts_sent :: "string list"

record BudgetTracker =
  budget_data :: budget_state
  daily_limits :: "(string \<times> int) list"
  cost_per_request :: "(string \<times> rat) list"

type_synonym budget_file = "budget_state option"

definition save_budget :: "BudgetTracker \<Rightarrow> budget_file" where
  "save_budget tr = Some (budget_data tr)"

definition fresh_budget :: budget_state where
  "fresh_budget = \<lparr>total_cost = 0, daily_usage = [], monthly_usage = [], alerts_sent = []\<rparr>"

definition load_budget :: "budget_file \<Rightarrow> budget_state \<times> budget_file" where
  "load_budget file =
     (case file of
        Some d \<Rightarrow> (d, file)
      | None \<Rightarrow> (fresh_budget, Some fresh_budget))"

definition BudgetTracker_init :: "budget_file \<Rightarrow> BudgetTracker \<times> budget_file" where
  "BudgetTracker_init file =
     (case load_budget file of
        (d, file') \<Rightarrow>
          (\<lparr>budget_data = d,
            daily_limits = [(''google_places'', 100), (''yelp'', 500), (''foursquare'', 100)],
            cost_per_request =
              [(''google_places_details'', round_double (5 / 1000)),
               (''google_places_search'', round_double (17 / 1000)),
               (''google_places_photos'', round_double (7 / 1000)),
               (''yelp_business'', 0),
               (''yelp_search'', 0),
               (''foursquare_venues'', 0)]\<rparr>,
           file'))"

text \<open>The two \<open>if ... not in ...\<close> initialisations that open both \<open>can_make_request\<close>
  and \<open>record_request\<close>: today's dictionary is created when absent, and in it the
  provider's counter, at zero.\<close>

definition init_usage :: "budget_state \<Rightarrow> string \<Rightarrow> string \<Rightarrow> budget_state" where
  "init_usage b today api_name =
     (let usage = (if dict_get (daily_usage b) today = None
                   then dict_set (daily_usage b) today [] else daily_usage b);
          day = (case dict_get usage today of None \<Rightarrow> [] | Some d \<Rightarrow> d)
      in b\<lparr>daily_usage :=
             (if dict_get day api_name = None
              then dict_set usage today (dict_set day api_name 0) else usage)\<rparr>)"

text \<open>\<open>budget_data['daily_usage'][today][api_name]\<close>, read after the initialisation.\<close>

definition usage_count :: "budget_state \<Rightarrow> string \<Rightarrow> string \<Rightarrow> int" where
  "usage_count b today api_name =
     (case dict_get (daily_usage b) today of
        None \<Rightarrow> 0
      | Some day \<Rightarrow> (case dict_get day api_name of None \<Rightarrow> 0 | Some c \<Rightarrow> c))"

definition daily_limit_of :: "BudgetTracker \<Rightarrow> string \<Rightarrow> int" where
  "daily_limit_of tr api_name =
     (case dict_get (daily_limits tr) api_name of None \<Rightarrow> 50 | Some l \<Rightarrow> l)"

definition cost_of :: "BudgetTracker \<Rightarrow> string \<Rightarrow> string \<Rightarrow> rat" where
  "cost_of tr api_name endpoint =
     (case dict_get (cost_per_request tr) (api_name @ ''_'' @ endpoint) of
        None \<Rightarrow> round_double (1 / 100)
      | Some c \<Rightarrow> c)"

definition can_make_request :: "BudgetTracker \<Rightarrow> string \<Rightarrow> string \<Rightarrow> string \<Rightarrow> bool \<times> BudgetTracker" where
  "can_make_request tr today api_name endpoint =
     (let b = init_usage (budget_data tr) today api_name;
          daily_count = usage_count b today api_name;
          daily_limit = daily_limit_of tr api_name
      in if daily_count \<ge> daily_limit then (False, tr\<lparr>budget_data := b\<rparr>)
         else if fadd (total_cost b) (cost_of tr api_name endpoint) > 5
              then (False, tr\<lparr>budget_data := b\<rparr>)
              else (True, tr\<lparr>budget_data := b\<rparr>))"

text \<open>\<open>_check_alerts\<close> reads the calendar again (\<open>today\<close> here), collects the alert
  messages and appends those not yet sent, then saves.\<close>

definition usage_alerts :: "BudgetTracker \<Rightarrow> string \<Rightarrow> string list" where
  "usage_alerts tr today =
     (case dict_get (daily_usage (budget_data tr)) today of
        None \<Rightarrow> []
      | Some day \<Rightarrow>
          map (\<lambda>(api_name, count).
                 api_name @ '': '' @ str_int count @ ''/'' @ str_int (daily_limit_of tr api_name)
                 @ '' daily requests'')
              (filter (\<lambda>(api_name, count).
                         of_int count \<ge> fmul (float_of_int (daily_limit_of tr api_name)) (round_double (8 / 10)))
                      day))"

definition cost_alerts :: "BudgetTracker \<Rightarrow> string list" where
  "cost_alerts tr =
     (if total_cost (budget_data tr) \<ge> 1
      then [''Total cost: $'' @ format_2f (total_cost (budget_data tr))] else [])"

definition send_alert :: "string list \<Rightarrow> string \<Rightarrow> string list" where
  "send_alert sent alert = (if alert \<notin> set sent then sent @ [alert] else sent)"

definition check_alerts :: "BudgetTracker \<Rightarrow> string \<Rightarrow> BudgetTracker \<times> budget_file" where
  "check_alerts tr today =
     (let tr' = tr\<lparr>budget_data := (budget_data tr)
                      \<lparr>alerts_sent := foldl send_alert (alerts_sent (budget_data tr))
                                         (usage_alerts tr today @ cost_alerts tr)\<rparr>\<rparr>
      in (tr', save_budget tr'))"

text \<open>\<open>record_request\<close>: \<open>today\<close> is the calendar as the method reads it, \<open>today'\<close>
  as \<open>_check_alerts\<close> reads it a moment later. The file is written twice, by
  \<open>record_request\<close> itself and by \<open>_check_alerts\<close>; the result carries the cost
  returned, the tracker and the file as the call leaves them.\<close>

definition record_request ::
  "BudgetTracker \<Rightarrow> string \<Rightarrow> string \<Rightarrow> string \<Rightarrow> string \<Rightarrow> rat \<times> BudgetTracker \<times> budget_file" where
  "record_request tr today today' api_name endpoint =
     (let b = init_usage (budget_data tr) today api_name;
          day = (case dict_get (daily_usage b) today of None \<Rightarrow> [] | Some d \<Rightarrow> d);
          b1 = b\<lparr>daily_usage :=
                   dict_set (daily_usage b) today
                     (dict_set day api_name (usage_count b today api_name + 1))\<rparr>;
          cost = cost_of tr api_name endpoint;
          tr2 = tr\<lparr>budget_data := b1\<lparr>total_cost := fadd (total_cost b1) cost\<rparr>\<rparr>;
          file2 = save_budget tr2
      in case check_alerts tr2 today' of (tr3, file3) \<Rightarrow> (cost, tr3, file3))"

section \<open>The rate governor (budget\_control.py)\<close>

text \<open>
  \<open>wait_if_needed\<close>: \<open>now\<close> is the reading of \<open>time()\<close>. The result is the time slept
  (\<open>None\<close> when \<open>sleep\<close> is not called) and the limiter afterwards, or the
  \<open>ValueError\<close> of \<open>min\<close> on an empty window.
\<close>

record RateLimiter =
  requests_per_minute :: int
  request_times :: "rat list"

definition wait_if_needed :: "RateLimiter \<Rightarrow> rat \<Rightarrow> exn + (rat option \<times> RateLimiter)" where
  "wait_if_needed rl now =
     (let times = filter (\<lambda>t. fsub now t < 60) (request_times rl)
      in if int (length times) \<ge> requests_per_minute rl
         then (if times = [] then Inl (ValueError ''min() arg is an empty sequence'')
               else (let oldest_request = min_list times;
                         wait_time = fsub 60 (fsub now oldest_request)
                     in Inr (if wait_time > 0 then Some wait_time else None,
                             rl\<lparr>request_times := times @ [now]\<rparr>)))
         else Inr (None, rl\<lparr>request_times := times @ [now]\<rparr>))"

text \<open>
  A single-threaded client: it issues one call per scheduled arrival, at the scheduled time
  or, when the previous call is still sleeping then, as soon as that call has returned.
  \<open>admissions\<close> lists the times at which the calls return, that is, at which the
  requests they guard go out. \<open>clock\<close> is the time the previous call returned.
\<close>

fun admissions :: "RateLimiter \<Rightarrow> rat \<Rightarrow> rat list \<Rightarrow> exn + rat list" where
  "admissions rl clock [] = Inr []"
| "admissions rl clock (arrival # arrivals) =
     (let now = max clock arrival
      in case wait_if_needed rl now of
           Inl e \<Rightarrow> Inl e
         | Inr (slept, rl') \<Rightarrow>
             (let returned = (case slept of None \<Rightarrow> now | Some w \<Rightarrow> now + w)
              in case admissions rl' returned arrivals of
                   Inl e \<Rightarrow> Inl e
                 | Inr rest \<Rightarrow> Inr (returned # rest)))"

text \<open>A run of recorded requests: each entry gives the two calendar readings, the provider
  and the operation of one \<open>record_request\<close> call. \<open>recorded_costs\<close> lists the
  tabulated costs \<open>c_1..c_k\<close> of the run.\<close>

fun record_all ::
  "BudgetTracker \<Rightarrow> budget_file \<Rightarrow> (string \<times> string \<times> string \<times> string) list
     \<Rightarrow> BudgetTracker \<times> budget_file" where
  "record_all tr file [] = (tr, file)"
| "record_all tr file ((today, today', api_name, endpoint) # rs) =
     (case record_request tr today today' api_name endpoint of
        (cost, tr', file') \<Rightarrow> record_all tr' file' rs)"

definition recorded_costs :: "BudgetTracker \<Rightarrow> (string \<times> string \<times> string \<times> string) list \<Rightarrow> rat list" where
  "recorded_costs tr rs = map (\<lambda>(today, today', api_name, endpoint). cost_of tr api_name endpoint) rs"

section \<open>The Foursquare adapter (sources/foursquare.py)\<close>

text \<open>
  The adapter keeps its credentials; the Django cache and the network are outside it. The
  cache is modelled by the entries that are alive (expiry is the cache's business), the
  network by the reply it gives to a GET. A reply carries the status code and the decoded
  JSON body, \<open>None\<close> when the body is not JSON; \<open>NoReply\<close> is \<open>requests.get\<close> itself
  raising (connection error, timeout).
\<close>

record FoursquareSource =
  client_id :: "string option"
  client_secret :: "string option"
  api_key :: "string option"

datatype http_reply = NoReply string | Reply nat "pyval option"

type_synonym network = "string \<Rightarrow> pydict \<Rightarrow> pydict \<Rightarrow> http_reply"

text \<open>What an adapter does to the world around it, in order.\<close>

datatype event =
    CacheGet string
  | CacheSet string nat
  | HttpGet string pydict pydict
  | BudgetCheck string string
  | BudgetRecord string string
  | RateWait

text \<open>\<open>d.get(k, default)\<close> on a dictionary, and on an arbitrary value, where anything
  but a dictionary has no \<open>get\<close>.\<close>

definition dget :: "pydict \<Rightarrow> string \<Rightarrow> pyval \<Rightarrow> pyval" where
  "dget d k default_value = (case dict_get d k of None \<Rightarrow> default_value | Some v \<Rightarrow> v)"

definition py_get :: "pyval \<Rightarrow> string \<Rightarrow> pyval \<Rightarrow> exn + pyval" where
  "py_get obj k default_value =
     (case obj of PDict d \<Rightarrow> Inr (dget d k default_value) | _ \<Rightarrow> Inl AttributeError)"

definition py_or :: "pyval \<Rightarrow> pyval \<Rightarrow> pyval" where
  "py_or a b = (if py_truthy a then a else b)"

text \<open>\<open>for x in v\<close>: a list gives its elements, a dictionary its keys, a string its
  characters; nothing else can be iterated.\<close>

definition py_iter :: "pyval \<Rightarrow> exn + pyval list" where
  "py_iter v =
     (case v of
        PList xs \<Rightarrow> Inr xs
      | PDict d \<Rightarrow> Inr (map (\<lambda>(k, _). PStr k) d)
      | PStr s \<Rightarrow> Inr (map (\<lambda>c. PStr [c]) s)
      | _ \<Rightarrow> Inl TypeError)"

fun map_exn :: "('a \<Rightarrow> exn + 'b) \<Rightarrow> 'a list \<Rightarrow> exn + 'b list" where
  "map_exn f [] = Inr []"
| "map_exn f (x # xs) =
     (case f x of
        Inl e \<Rightarrow> Inl e
      | Inr y \<Rightarrow> (case map_exn f xs of Inl e \<Rightarrow> Inl e | Inr ys \<Rightarrow> Inr (y # ys)))"

text \<open>One entry of \<open>categories\<close>, built in the loop of \<open>_format_business\<close>.\<close>

definition format_category :: "pyval \<Rightarrow> exn + pyval" where
  "format_category cat =
     (case cat of
        PDict c \<Rightarrow>
          Inr (PDict [(''id'', dget c ''id'' PNone),
                      (''name'', dget c ''name'' PNone),
                      (''short_name'', dget c ''short_name'' PNone),
                      (''icon'', (case dget c ''icon'' PNone of
                                    PDict icon \<Rightarrow> dget icon ''prefix'' PNone
                                  | v \<Rightarrow> v))])
      | _ \<Rightarrow> Inl AttributeError)"

definition category_name :: "pyval \<Rightarrow> pyval" where
  "category_name cat = (case cat of PDict c \<Rightarrow> dget c ''name'' PNone | _ \<Rightarrow> PNone)"

text \<open>\<open>{k: v for k, v in business.items() if v not in [None, '', [], {}]}\<close>\<close>

definition clean_empty :: "pydict \<Rightarrow> pydict" where
  "clean_empty business =
     filter (\<lambda>(k, v). v \<noteq> PNone \<and> v \<noteq> PStr [] \<and> v \<noteq> PList [] \<and> v \<noteq> PDict []) business"

text \<open>The body of the \<open>try\<close> in \<open>_format_business\<close>: the canonical business, or the
  exception raised on the way. \<open>place_data\<close>, its \<open>location\<close>, its \<open>geocodes\<close> and
  \<open>geocodes.main\<close> must be dictionaries, \<open>categories\<close> something to iterate over whose
  members are dictionaries.\<close>

definition format_business_body :: "pyval \<Rightarrow> exn + pydict" where
  "format_business_body place_data =
     (case place_data of
        PDict pd \<Rightarrow>
          (case py_get (dget pd ''geocodes'' (PDict [])) ''main'' (PDict []) of
             Inl e \<Rightarrow> Inl e
           | Inr geocodes \<Rightarrow>
               (case py_iter (dget pd ''categories'' (PList [])) of
                  Inl e \<Rightarrow> Inl e
                | Inr cats \<Rightarrow>
                    (case map_exn format_category cats of
                       Inl e \<Rightarrow> Inl e
                     | Inr categories \<Rightarrow>
                         (case dget pd ''location'' (PDict []) of
                            PDict location \<Rightarrow>
                              (case geocodes of
                                 PDict main \<Rightarrow>
                                   Inr (clean_empty
                                     [(''id'', py_or (dget pd ''fsq_id'' PNone) (dget pd ''id'' PNone)),
                                      (''name'', dget pd ''name'' (PStr ''Unknown'')),
                                      (''address'', py_or (dget location ''formatted_address'' PNone)
                                                          (dget location ''address'' PNone)),
                                      (''city'', dget location ''locality'' PNone),
                                      (''state'', dget location ''region'' PNone),
                                      (''country'', dget location ''country'' PNone),
                                      (''postal_code'', dget location ''postcode'' PNone),
                                      (''latitude'', py_or (dget main ''latitude'' PNone)
                                                           (dget location ''lat'' PNone)),
                                      (''longitude'', py_or (dget main ''longitude'' PNone)
                                                            (dget location ''lng'' PNone)),
                                      (''categories'', PList categories),
                                      (''category_names'', PList (map category_name categories)),
                                      (''distance'', dget pd ''distance'' PNone),
                                      (''rating'', dget pd ''rating'' PNone),
                                      (''price'', (case dget pd ''price'' PNone of
                                                     PDict price \<Rightarrow> dget price ''tier'' PNone
                                                   | v \<Rightarrow> v)),
                                      (''stats'', dget pd ''stats'' (PDict [])),
                                      (''hours'', dget pd ''hours'' (PDict [])),
                                      (''popularity'', dget pd ''popularity'' PNone),
                                      (''tastes'', dget pd ''tastes'' (PList [])),
                                      (''source'', PStr ''foursquare''),
                                      (''raw_data'', place_data)])
                               | _ \<Rightarrow> Inl AttributeError)
                          | _ \<Rightarrow> Inl AttributeError))))
      | _ \<Rightarrow> Inl AttributeError)"

text \<open>\<open>_format_business\<close>: \<open>except Exception\<close> turns every failure into \<open>None\<close>.\<close>

definition format_business :: "FoursquareSource \<Rightarrow> pyval \<Rightarrow> pydict option" where
  "format_business self place_data =
     (case format_business_body place_data of Inl e \<Rightarrow> None | Inr business \<Rightarrow> Some business)"

text \<open>The loop over the places of a reply: a place is kept when its formatting gives a
  non-empty dictionary.\<close>

definition format_places :: "FoursquareSource \<Rightarrow> pyval list \<Rightarrow> pydict list" where
  "format_places self places =
     concat (map (\<lambda>place. case format_business self place of
                              None \<Rightarrow> []
                            | Some business \<Rightarrow> if business \<noteq> [] then [business] else [])
                 places)"

text \<open>\<open>places[:limit]\<close>, ready for the loop: a list or a string can be sliced.\<close>

definition slice_places :: "pyval \<Rightarrow> int \<Rightarrow> exn + pyval list" where
  "slice_places places limit =
     (case places of
        PList ps \<Rightarrow> Inr (py_slice_to ps limit)
      | PStr s \<Rightarrow> Inr (map (\<lambda>c. PStr [c]) (py_slice_to s limit))
      | _ \<Rightarrow> Inl TypeError)"

definition search_cache_key :: "string \<Rightarrow> string \<Rightarrow> string \<Rightarrow> int \<Rightarrow> string" where
  "search_cache_key location query category limit =
     ''foursquare_search:'' @ location @ '':'' @ query @ '':'' @ category @ '':'' @ str_int limit"

definition search_params :: "string \<Rightarrow> string \<Rightarrow> string \<Rightarrow> int \<Rightarrow> int \<Rightarrow> pydict" where
  "search_params location query category radius limit =
     filter (\<lambda>(k, v). v \<noteq> PNone)
       [(''near'', if CHR '','' \<notin> set location then PStr location else PNone),
        (''ll'', if CHR '','' \<in> set location \<and> count_list location CHR '','' = 1
                 then PStr location else PNone),
        (''query'', if query \<noteq> [] then PStr query else PNone),
        (''categories'', if category \<noteq> [] then PStr category else PNone),
        (''radius'', PInt (min radius 100000)),
        (''limit'', PInt (min limit 50)),
        (''fields'', PStr ''fsq_id,name,categories,location,geocodes,distance,rating,price,stats,hours,popularity,tastes'')]"

definition str_or_None :: "string option \<Rightarrow> string" where
  "str_or_None s = (case s of None \<Rightarrow> ''None'' | Some v \<Rightarrow> v)"

definition opt_val :: "string option \<Rightarrow> pyval" where
  "opt_val s = (case s of None \<Rightarrow> PNone | Some v \<Rightarrow> PStr v)"

definition headers :: "FoursquareSource \<Rightarrow> pydict" where
  "headers self =
     [(''Accept'', PStr ''application/json''),
      (''Authorization'', PStr (if truthy_setting (api_key self) then str_or_None (api_key self)
                                else str_or_None (client_id self) @ str_or_None (client_secret self)))]"

definition v2_params :: "FoursquareSource \<Rightarrow> pydict" where
  "v2_params self =
     [(''client_id'', opt_val (client_id self)),
      (''client_secret'', opt_val (client_secret self)),
      (''v'', PStr ''20240101'')]"

text \<open>\<open>params.update(v2_params)\<close>\<close>

definition dict_update :: "pydict \<Rightarrow> pydict \<Rightarrow> pydict" where
  "dict_update d extra = foldl (\<lambda>acc (k, v). dict_set acc k v) d extra"

text \<open>The request that \<open>search_businesses\<close> sends: the v3 endpoint with the headers when
  an API key is configured, the v2 endpoint with the client credentials otherwise.\<close>

definition search_request_of ::
  "FoursquareSource \<Rightarrow> string \<Rightarrow> string \<Rightarrow> string \<Rightarrow> int \<Rightarrow> int \<Rightarrow> string \<times> pydict \<times> pydict" where
  "search_request_of self location query category radius limit =
     (if truthy_setting (api_key self)
      then (''https://api.foursquare.com/v3/places/search'', headers self,
            search_params location query category radius limit)
      else (''https://api.foursquare.com/v2/venues/search'', [],
            dict_update (search_params location query category radius limit) (v2_params self)))"

text \<open>The places of a decoded reply: \<open>data.get('results', [])\<close> for v3,
  \<open>data.get('response', {}).get('venues', [])\<close> for v2.\<close>

definition places_of :: "FoursquareSource \<Rightarrow> pyval \<Rightarrow> exn + pyval" where
  "places_of self data =
     (if truthy_setting (api_key self)
      then py_get data ''results'' (PList [])
      else (case py_get data ''response'' (PDict []) of
              Inl e \<Rightarrow> Inl e
            | Inr response \<Rightarrow> py_get response ''venues'' (PList [])))"

text \<open>
  \<open>search_businesses\<close>. The result lists the events in order, the cache afterwards, and
  the businesses returned or the exception raised. A cached value counts as a hit when it is
  truthy, that is, a non-empty list. When \<open>requests.get\<close> itself raises, the handler reads
  \<open>response.status_code\<close> of a variable never assigned; a status of 400 and above makes
  \<open>raise_for_status\<close> raise, and a body that is not JSON makes \<open>response.json\<close> raise.
\<close>

definition FoursquareSource_search_businesses ::
  "FoursquareSource \<Rightarrow> (string \<times> pydict list) list \<Rightarrow> network
     \<Rightarrow> string \<Rightarrow> string \<Rightarrow> string \<Rightarrow> int \<Rightarrow> int
     \<Rightarrow> event list \<times> (string \<times> pydict list) list \<times> (exn + pydict list)" where
  "FoursquareSource_search_businesses self cache net location query category radius limit =
     (let cache_key = search_cache_key location query category limit;
          cached = (case dict_get cache cache_key of None \<Rightarrow> [] | Some v \<Rightarrow> v)
      in if cached \<noteq> [] then ([CacheGet cache_key], cache, Inr cached)
         else (case search_request_of self location query category radius limit of
                 (url, hdrs, params) \<Rightarrow>
                   (case net url hdrs params of
                      NoReply m \<Rightarrow>
                        ([CacheGet cache_key, HttpGet url hdrs params], cache,
                         Inl (NameError ''response''))
                    | Reply status body \<Rightarrow>
                        (if 400 \<le> status \<and> status < 600
                         then ([CacheGet cache_key, HttpGet url hdrs params], cache,
                               Inl (GenericException (''Foursquare API error: '' @ str_nat status @ '' Error'')))
                         else (case body of
                                 None \<Rightarrow>
                                   ([CacheGet cache_key, HttpGet url hdrs params], cache,
                                    Inl (GenericException ''Foursquare API error: Expecting value''))
                               | Some data \<Rightarrow>
                                   (case places_of self data of
                                      Inl e \<Rightarrow> ([CacheGet cache_key, HttpGet url hdrs params], cache, Inl e)
                                    | Inr places \<Rightarrow>
                                        (case slice_places places limit of
                                           Inl e \<Rightarrow>
                                             ([CacheGet cache_key, HttpGet url hdrs params], cache, Inl e)
                                         | Inr ps \<Rightarrow>
                                             ([CacheGet cache_key, HttpGet url hdrs params,
                                               CacheSet cache_key 300],
                                              dict_set cache cache_key (format_places self ps),
                                              Inr (format_places self ps)))))))))"

section \<open>The Yelp adapter (sources/yelp.py)\<close>

text \<open>
  \<open>YelpSource.search_businesses\<close>, the adapter that owns a budget tracker and a rate
  limiter. \<open>today\<close>, \<open>today'\<close> and \<open>now\<close> are the readings of the calendar and of the
  clock that the governors take; \<open>format_yelp\<close> stands for \<open>_format_business\<close> of this
  adapter, which has no part in the order of events. The module never defines the
  \<open>logger\<close> that its handlers call, so a failed request leaves as \<open>NameError\<close>.
\<close>

record YelpSource =
  yelp_api_key :: string
  budget_tracker :: BudgetTracker
  rate_limiter :: RateLimiter

definition yelp_params :: "string \<Rightarrow> string \<Rightarrow> string \<Rightarrow> int \<Rightarrow> int \<Rightarrow> pydict" where
  "yelp_params location term categories radius limit =
     [(''location'', PStr location), (''limit'', PInt limit), (''radius'', PInt radius)]
     @ (if term \<noteq> [] then [(''term'', PStr term)] else [])
     @ (if categories \<noteq> [] then [(''categories'', PStr categories)] else [])"

definition yelp_headers :: "YelpSource \<Rightarrow> pydict" where
  "yelp_headers self =
     [(''Authorization'', PStr (''Bearer '' @ yelp_api_key self)), (''Accept'', PStr ''application/json'')]"

definition YelpSource_search_businesses ::
  "(pyval \<Rightarrow> pydict option) \<Rightarrow> YelpSource \<Rightarrow> budget_file \<Rightarrow> network
     \<Rightarrow> string \<Rightarrow> string \<Rightarrow> rat
     \<Rightarrow> string \<Rightarrow> string \<Rightarrow> string \<Rightarrow> int \<Rightarrow> int
     \<Rightarrow> event list \<times> YelpSource \<times> budget_file \<times> (exn + pydict list)" where
  "YelpSource_search_businesses format_yelp self store net today today' now
       location term categories radius limit =
     (case can_make_request (budget_tracker self) today ''yelp'' ''search'' of
        (allowed, tracker) \<Rightarrow>
          (if \<not> allowed
           then ([BudgetCheck ''yelp'' ''search''], self\<lparr>budget_tracker := tracker\<rparr>, store,
                 Inl (GenericException ''Daily limit reached for Yelp API''))
           else (case wait_if_needed (rate_limiter self) now of
                   Inl e \<Rightarrow>
                     ([BudgetCheck ''yelp'' ''search'', RateWait],
                      self\<lparr>budget_tracker := tracker\<rparr>, store, Inl e)
                 | Inr (slept, limiter) \<Rightarrow>
                     (case net ''https://api.yelp.com/v3/businesses/search'' (yelp_headers self)
                             (yelp_params location term categories radius limit) of
                        NoReply m \<Rightarrow>
                          ([BudgetCheck ''yelp'' ''search'', RateWait,
                            HttpGet ''https://api.yelp.com/v3/businesses/search'' (yelp_headers self)
                              (yelp_params location term categories radius limit)],
                           self\<lparr>budget_tracker := tracker, rate_limiter := limiter\<rparr>, store,
                           Inl (NameError ''logger''))
                      | Reply status body \<Rightarrow>
                          (case (if 400 \<le> status \<and> status < 600 then None else body) of
                             None \<Rightarrow>
                               ([BudgetCheck ''yelp'' ''search'', RateWait,
                                 HttpGet ''https://api.yelp.com/v3/businesses/search'' (yelp_headers self)
                                   (yelp_params location term categories radius limit)],
                                self\<lparr>budget_tracker := tracker, rate_limiter := limiter\<rparr>, store,
                                Inl (NameError ''logger''))
                           | Some data \<Rightarrow>
                               (case record_request tracker today today' ''yelp'' ''search'' of
                                  (cost, tracker', store') \<Rightarrow>
                                    ([BudgetCheck ''yelp'' ''search'', RateWait,
                                      HttpGet ''https://api.yelp.com/v3/businesses/search'' (yelp_headers self)
                                        (yelp_params location term categories radius limit),
                                      BudgetRecord ''yelp'' ''search''],
                                     self\<lparr>budget_tracker := tracker', rate_limiter := limiter\<rparr>, store',
                                     (case py_get data ''businesses'' (PList []) of
                                        Inl e \<Rightarrow> Inl e
                                      | Inr bs \<Rightarrow>
                                          (case py_iter bs of
                                             Inl e \<Rightarrow> Inl e
                                           | Inr items \<Rightarrow>
                                               Inr (concat (map (\<lambda>b. case format_yelp b of
                                                                         None \<Rightarrow> []
                                                                       | Some f \<Rightarrow> if f \<noteq> [] then [f] else [])
                                                                items)))))))))))"

section \<open>Facts about rounding\<close>

lemma floorlog_rat_bounds:
  assumes "0 < (p::int)"
  shows "1 \<le> floorlog 2 (nat p)"
    and "(2::rat) ^ (floorlog 2 (nat p) - 1) \<le> of_int p"
    and "of_int p < (2::rat) ^ floorlog 2 (nat p)"
proof -
  have pos: "0 < nat p" using assms by simp
  have b: "2 ^ (floorlog 2 (nat p) - 1) \<le> nat p \<and> nat p < 2 ^ floorlog 2 (nat p)"
    using floorlog_bounds [of "nat p" 2] pos by simp
  show "1 \<le> floorlog 2 (nat p)"
    using pos by (simp add: floorlog_def)
  have "(of_nat (2 ^ (floorlog 2 (nat p) - 1)) :: rat) \<le> of_nat (nat p)"
    using b by (simp only: of_nat_le_iff)
  then show "(2::rat) ^ (floorlog 2 (nat p) - 1) \<le> of_int p"
    using assms by simp
  have "(of_nat (nat p) :: rat) < of_nat (2 ^ floorlog 2 (nat p))"
    using b by (simp only: of_nat_less_iff)
  then show "of_int p < (2::rat) ^ floorlog 2 (nat p)"
    using assms by simp
qed

lemma fl_exponent_bounds_pos:
  assumes "0 < x"
  shows "2 powi (fl_exponent x) \<le> x \<and> x < 2 powi (fl_exponent x + 1)"
proof -
  obtain p q where pq: "quotient_of x = (p, q)" by force
  have q: "0 < q" using quotient_of_denom_pos [OF pq] .
  have x: "x = of_int p / of_int q" using quotient_of_div [OF pq] .
  have p: "0 < p"
  proof (rule ccontr)
    assume "\<not> 0 < p"
    then have "of_int p / (of_int q :: rat) \<le> 0"
      using q by (simp add: divide_nonpos_pos)
    then show False using assms x by simp
  qed
  define bp where "bp = floorlog 2 (nat p)"
  define bq where "bq = floorlog 2 (nat q)"
  define d where "d = int bp - int bq"
  have bp: "1 \<le> bp" "(2::rat) ^ (bp - 1) \<le> of_int p" "of_int p < (2::rat) ^ bp"
    using floorlog_rat_bounds [OF p] by (simp_all add: bp_def)
  have bq: "1 \<le> bq" "(2::rat) ^ (bq - 1) \<le> of_int q" "of_int q < (2::rat) ^ bq"
    using floorlog_rat_bounds [OF q] by (simp_all add: bq_def)
  have qr: "(0::rat) < of_int q" and pr: "(0::rat) < of_int p" using p q by simp_all
  have lo_eq: "(2::rat) powi (d - 1) = 2 ^ (bp - 1) / 2 ^ bq"
  proof -
    have "d - 1 = int (bp - 1) - int bq" using bp(1) by (simp add: d_def)
    then show ?thesis by (simp add: power_int_diff)
  qed
  have hi_eq: "(2::rat) powi (d + 1) = 2 ^ bp / 2 ^ (bq - 1)"
  proof -
    have "d + 1 = int bp - int (bq - 1)" using bq(1) by (simp add: d_def)
    then show ?thesis by (simp add: power_int_diff)
  qed
  have lo: "2 powi (d - 1) < x"
  proof -
    have "(2::rat) ^ (bp - 1) / 2 ^ bq \<le> of_int p / 2 ^ bq"
      using bp(2) by (simp add: divide_right_mono)
    also have "\<dots> < of_int p / of_int q"
      using bq(3) pr qr by (simp add: divide_strict_left_mono)
    finally show ?thesis by (simp add: lo_eq x)
  qed
  have hi: "x < 2 powi (d + 1)"
  proof -
    have "of_int p / of_int q < (2::rat) ^ bp / of_int q"
      using bp(3) qr by (simp add: divide_strict_right_mono)
    also have "\<dots> \<le> 2 ^ bp / 2 ^ (bq - 1)"
      using bq(2) by (intro frac_le) simp_all
    finally show ?thesis by (simp add: hi_eq x)
  qed
  have fe: "fl_exponent x = (if 2 powi d \<le> x then d else d - 1)"
    using assms by (simp add: fl_exponent_def pq bp_def bq_def d_def Let_def)
  show ?thesis
  proof (cases "2 powi d \<le> x")
    case True
    then show ?thesis using hi by (simp add: fe)
  next
    case False
    then show ?thesis using lo by (simp add: fe)
  qed
qed

lemma fl_exponent_abs: "fl_exponent \<bar>x\<bar> = fl_exponent x"
  by (simp add: fl_exponent_def)

lemma fl_exponent_eq:
  assumes "2 powi e \<le> \<bar>x\<bar>" and "\<bar>x\<bar> < 2 powi (e + 1)"
  shows "fl_exponent x = e"
proof -
  have pos: "0 < \<bar>x\<bar>"
    using assms(1) by (meson less_le_trans zero_less_numeral zero_less_power_int)
  define L where "L = fl_exponent x"
  have b: "2 powi L \<le> \<bar>x\<bar>" "\<bar>x\<bar> < 2 powi (L + 1)"
    using fl_exponent_bounds_pos [OF pos] by (simp_all add: fl_exponent_abs L_def)
  have "\<not> L < e"
  proof
    assume "L < e"
    then have "(2::rat) powi (L + 1) \<le> 2 powi e"
      by (intro power_int_increasing) simp_all
    then show False using b(2) assms(1) by simp
  qed
  moreover have "\<not> e < L"
  proof
    assume "e < L"
    then have "(2::rat) powi (e + 1) \<le> 2 powi L"
      by (intro power_int_increasing) simp_all
    then show False using b(1) assms(2) by simp
  qed
  ultimately show ?thesis by (simp add: L_def)
qed

lemma round_double_eq:
  assumes "2 powi (e + 52) \<le> \<bar>x\<bar>" and "\<bar>x\<bar> < 2 powi (e + 53)"
  shows "round_double x = of_int (round_half_even (x / 2 powi e)) * 2 powi e"
proof -
  have "fl_exponent x = e + 52"
    using assms by (intro fl_exponent_eq) (simp_all add: add.assoc)
  moreover have "x \<noteq> 0"
    using assms(1) by (metis abs_zero not_le zero_less_numeral zero_less_power_int)
  ultimately show ?thesis by (simp add: round_double_def)
qed

lemma round_half_even_frac:
  assumes "0 < b"
  shows "round_half_even (of_int a / of_int b) =
           (if 2 * (a mod b) < b then a div b
            else if b < 2 * (a mod b) then a div b + 1
            else if even (a div b) then a div b else a div b + 1)"
proof -
  have br: "(0::rat) < of_int b" using assms by simp
  have fl: "\<lfloor>(of_int a / of_int b :: rat)\<rfloor> = a div b"
    by (rule floor_divide_of_int_eq)
  have "(of_int a :: rat) = of_int (b * (a div b) + a mod b)" by simp
  then have "(of_int a :: rat) = of_int b * of_int (a div b) + of_int (a mod b)"
    by (simp only: of_int_add of_int_mult)
  then have d: "(of_int a / of_int b :: rat) - of_int (a div b) = of_int (a mod b) / of_int b"
    using br by (simp add: field_simps)
  have lt: "(of_int (a mod b) / of_int b :: rat) < 1 / 2 \<longleftrightarrow> 2 * (a mod b) < b"
  proof -
    have "(of_int (a mod b) / of_int b :: rat) < 1 / 2 \<longleftrightarrow> (of_int (2 * (a mod b)) :: rat) < of_int b"
      using br by (simp add: field_simps)
    then show ?thesis by (simp only: of_int_less_iff)
  qed
  have gt: "1 / 2 < (of_int (a mod b) / of_int b :: rat) \<longleftrightarrow> b < 2 * (a mod b)"
  proof -
    have "1 / 2 < (of_int (a mod b) / of_int b :: rat) \<longleftrightarrow> (of_int b :: rat) < of_int (2 * (a mod b))"
      using br by (simp add: field_simps)
    then show ?thesis by (simp only: of_int_less_iff)
  qed
  show ?thesis
    unfolding round_half_even_def Let_def fl d lt gt ..
qed

lemma round_half_even_numeral_div:
  "round_half_even (numeral a / numeral b) =
     (if 2 * (numeral a mod numeral b) < (numeral b :: int) then numeral a div numeral b
      else if (numeral b :: int) < 2 * (numeral a mod numeral b) then numeral a div numeral b + 1
      else if even (numeral a div numeral b :: int) then numeral a div numeral b
      else numeral a div numeral b + 1)"
  using round_half_even_frac [of "numeral b" "numeral a"] by simp

lemma round_half_even_of_int: "round_half_even (of_int n) = n"
  by (simp add: round_half_even_def)

lemma round_half_even_numeral: "round_half_even (numeral n) = numeral n"
  using round_half_even_of_int [of "numeral n"] by simp

lemmas round_half_even_eval = round_half_even_numeral_div round_half_even_numeral

lemma round_half_even_error: "\<bar>of_int (round_half_even y) - y\<bar> \<le> 1 / 2"
proof -
  have "of_int \<lfloor>y\<rfloor> \<le> y" and "y < of_int \<lfloor>y\<rfloor> + 1"
    by linarith+
  then show ?thesis
    by (auto simp: round_half_even_def Let_def)
qed

lemma round_half_even_nonneg: "0 \<le> y \<Longrightarrow> 0 \<le> round_half_even y"
  by (auto simp: round_half_even_def Let_def)

lemma round_double_nonneg:
  assumes "0 \<le> x"
  shows "0 \<le> round_double x"
proof (cases "x = 0")
  case True
  then show ?thesis by (simp add: round_double_def)
next
  case False
  have "0 \<le> x / 2 powi (fl_exponent x - 52)"
    using assms by simp
  then have "0 \<le> round_half_even (x / 2 powi (fl_exponent x - 52))"
    by (rule round_half_even_nonneg)
  then show ?thesis
    using False by (simp add: round_double_def)
qed

lemma round_double_error_le8:
  assumes "0 \<le> x" and "x \<le> 8"
  shows "\<bar>round_double x - x\<bar> \<le> 2 powi (- 50)"
proof (cases "x = 0")
  case True
  then show ?thesis by (simp add: round_double_def)
next
  case False
  then have pos: "0 < x" using assms(1) by simp
  define L where "L = fl_exponent x"
  define e where "e = L - 52"
  have b: "2 powi L \<le> x" using fl_exponent_bounds_pos [OF pos] by (simp add: L_def)
  have L3: "L \<le> 3"
  proof (rule ccontr)
    assume "\<not> L \<le> 3"
    then have "4 \<le> L" by simp
    then have "(2::rat) powi 4 \<le> 2 powi L"
      by (intro power_int_increasing) simp_all
    then show False using b assms(2) by simp
  qed
  have pe: "(0::rat) < 2 powi e" by simp
  have rd: "round_double x = of_int (round_half_even (x / 2 powi e)) * 2 powi e"
    using False by (simp add: round_double_def L_def e_def)
  have "round_double x - x = (of_int (round_half_even (x / 2 powi e)) - x / 2 powi e) * 2 powi e"
    using pe by (simp add: rd field_simps)
  then have "\<bar>round_double x - x\<bar> = \<bar>of_int (round_half_even (x / 2 powi e)) - x / 2 powi e\<bar> * 2 powi e"
    using pe by (simp add: abs_mult)
  also have "\<dots> \<le> 1 / 2 * 2 powi e"
    using round_half_even_error [of "x / 2 powi e"] pe by (intro mult_right_mono) simp_all
  also have "\<dots> = 2 powi (e - 1)"
    by (simp add: power_int_diff)
  also have "\<dots> \<le> 2 powi (- 50)"
    using L3 by (intro power_int_increasing) (simp_all add: e_def)
  finally show ?thesis .
qed

text \<open>Summing \<open>cs\<close> into \<open>s\<close> from left to right in doubles stays within
  \<open>2 powi (- 50)\<close> per addition of the exact sum, while the values stay small.\<close>

lemma fadd_fold_error:
  assumes "0 \<le> s" and "\<forall>c \<in> set cs. 0 \<le> c" and "s + sum_list cs \<le> 7"
    and "length cs \<le> 1000000"
  shows "0 \<le> foldl fadd s cs
         \<and> \<bar>foldl fadd s cs - (s + sum_list cs)\<bar> \<le> of_nat (length cs) * 2 powi (- 50)"
  using assms
proof (induction cs rule: rev_induct)
  case Nil
  then show ?case by simp
next
  case (snoc c cs)
  define T where "T = foldl fadd s cs"
  define n where "n = length cs"
  have c0: "0 \<le> c" using snoc.prems(2) by simp
  have pre: "s + sum_list cs \<le> 7" using snoc.prems(3) c0 by simp
  have ih: "0 \<le> T" "\<bar>T - (s + sum_list cs)\<bar> \<le> of_nat n * 2 powi (- 50)"
    using snoc.IH snoc.prems pre by (simp_all add: T_def n_def)
  have n6: "n \<le> 1000000" using snoc.prems(4) by (simp add: n_def)
  have small: "(of_nat n :: rat) * 2 powi (- 50) \<le> 1"
  proof -
    have "(of_nat n :: rat) \<le> 1000000"
      using n6 by (metis of_nat_le_iff of_nat_numeral)
    then have "(of_nat n :: rat) * 2 powi (- 50) \<le> 1000000 * 2 powi (- 50)"
      by (intro mult_right_mono) simp_all
    also have "\<dots> \<le> 1" by simp
    finally show ?thesis .
  qed
  have x0: "0 \<le> T + c" using ih(1) c0 by simp
  have x8: "T + c \<le> 8"
  proof -
    have "T \<le> (s + sum_list cs) + of_nat n * 2 powi (- 50)"
      using ih(2) by linarith
    then show ?thesis using snoc.prems(3) small by simp
  qed
  have step: "\<bar>round_double (T + c) - (T + c)\<bar> \<le> 2 powi (- 50)"
    by (rule round_double_error_le8 [OF x0 x8])
  have fold: "foldl fadd s (cs @ [c]) = round_double (T + c)"
    by (simp add: T_def fadd_def)
  have "\<bar>round_double (T + c) - (s + sum_list (cs @ [c]))\<bar>
          \<le> \<bar>round_double (T + c) - (T + c)\<bar> + \<bar>T - (s + sum_list cs)\<bar>"
    by simp
  also have "\<dots> \<le> 2 powi (- 50) + of_nat n * 2 powi (- 50)"
    using step ih(2) by linarith
  also have "\<dots> = of_nat (length (cs @ [c])) * 2 powi (- 50)"
    by (simp add: n_def algebra_simps)
  finally have err: "\<bar>round_double (T + c) - (s + sum_list (cs @ [c]))\<bar>
                       \<le> of_nat (length (cs @ [c])) * 2 powi (- 50)" .
  show ?case
    unfolding fold using err round_double_nonneg [OF x0] by simp
qed

lemma fadd_fold_within_tolerance:
  assumes "0 \<le> s" and "\<forall>c \<in> set cs. 0 \<le> c" and "s + sum_list cs \<le> 7"
    and "length cs \<le> 1000000"
  shows "\<bar>foldl fadd s cs - (s + sum_list cs)\<bar> \<le> 1 / 10 ^ 9"
proof -
  have "\<bar>foldl fadd s cs - (s + sum_list cs)\<bar> \<le> of_nat (length cs) * 2 powi (- 50)"
    using fadd_fold_error [OF assms] by simp
  also have "\<dots> \<le> 1000000 * 2 powi (- 50)"
  proof -
    have "(of_nat (length cs) :: rat) \<le> 1000000"
      using assms(4) by (metis of_nat_le_iff of_nat_numeral)
    then show ?thesis by (intro mult_right_mono) simp_all
  qed
  also have "\<dots> \<le> 1 / 10 ^ 9" by simp
  finally show ?thesis .
qed

text \<open>Integers below \<open>2 ^ 53\<close> in magnitude are doubles: rounding leaves them alone.\<close>

lemma round_double_of_int:
  assumes "\<bar>n\<bar> < 2 ^ 53"
  shows "round_double (of_int n) = of_int n"
proof (cases "n = 0")
  case True
  then show ?thesis by (simp add: round_double_def)
next
  case False
  define x :: rat where "x = of_int n"
  have pos: "0 < \<bar>x\<bar>" using False by (simp add: x_def)
  define L where "L = fl_exponent x"
  have b: "2 powi L \<le> \<bar>x\<bar>"
    using fl_exponent_bounds_pos [OF pos] by (simp add: fl_exponent_abs L_def)
  have "(of_int \<bar>n\<bar> :: rat) < of_int (2 ^ 53)"
    using assms by (simp only: of_int_less_iff)
  then have small: "\<bar>x\<bar> < 2 powi 53" by (simp add: x_def)
  have L52: "L \<le> 52"
  proof (rule ccontr)
    assume "\<not> L \<le> 52"
    then have "53 \<le> L" by simp
    then have "(2::rat) powi 53 \<le> 2 powi L"
      by (intro power_int_increasing) simp_all
    then show False using b small by simp
  qed
  define k where "k = nat (52 - L)"
  have e: "L - 52 = - int k" using L52 by (simp add: k_def)
  have scale: "x / 2 powi (L - 52) = of_int (n * 2 ^ k)"
    by (simp add: e power_int_minus x_def field_simps)
  have "round_double x = of_int (round_half_even (x / 2 powi (L - 52))) * 2 powi (L - 52)"
    using pos by (auto simp: round_double_def L_def)
  also have "\<dots> = of_int (n * 2 ^ k) * 2 powi (- int k)"
    unfolding scale round_half_even_of_int by (simp add: e)
  also have "\<dots> = x"
    by (simp add: power_int_minus x_def field_simps)
  finally show ?thesis by (simp add: x_def)
qed

lemma round_double_numeral:
  "(numeral k :: int) < 2 ^ 53 \<Longrightarrow> round_double (numeral k) = numeral k"
  using round_double_of_int [of "numeral k"] by simp

lemma round_double_0: "round_double 0 = 0"
  by (simp add: round_double_def)

lemma round_double_1: "round_double 1 = 1"
  using round_double_of_int [of 1] by simp

lemmas round_double_small_int = round_double_numeral round_double_0 round_double_1

section \<open>Properties of the aggregator\<close>

lemma map_of_None_iff_available:
  "map_of (sources dc) s = None \<longleftrightarrow> s \<notin> set (get_available_sources dc)"
  by (simp add: get_available_sources_def map_of_eq_None_iff)

lemma canned_source_search: "search_businesses (canned_source bs) a = Inr bs"
  by (simp add: canned_source_def)

lemma collect_businesses_mock_direct:
  assumes "map_of (sources dc) ''mock'' = Some m"
  shows "collect_businesses now dc location ''mock'' query category limit =
           ([SearchCall ''mock''
               \<lparr>arg_location = location, arg_query = query, arg_category = category, arg_limit = limit\<rparr>],
            (case search_businesses m
                    \<lparr>arg_location = location, arg_query = query, arg_category = category, arg_limit = limit\<rparr> of
               Inr bs \<Rightarrow> Inr (search_result now ''mock'' location query category
                               (map (\<lambda>business. dict_set business ''data_source'' (PStr ''mock'')) bs))
             | Inl e \<Rightarrow> Inl e))"
  using assms by (simp add: collect_businesses.simps resolve_source_def split: sum.splits)

lemma collect_businesses_fallback:
  assumes "resolve_source dc source \<noteq> ''mock''"
    and "map_of (sources dc) (resolve_source dc source) = Some ds"
    and "search_businesses ds
           \<lparr>arg_location = location, arg_query = query, arg_category = category, arg_limit = limit\<rparr> = Inl e"
    and "map_of (sources dc) ''mock'' = Some m"
  shows "collect_businesses now dc location source query category limit =
           (SearchCall (resolve_source dc source)
              \<lparr>arg_location = location, arg_query = query, arg_category = category, arg_limit = limit\<rparr>
            # fst (collect_businesses now dc location ''mock'' query category limit),
            snd (collect_businesses now dc location ''mock'' query category limit))"
proof -
  have "''mock'' \<in> set (map fst (sources dc))"
    using assms(4) by (metis map_of_eq_None_iff option.distinct(1) set_map)
  then show ?thesis
    using assms(1-3)
    by (subst collect_businesses.simps) (simp split: prod.splits)
qed

text \<open>
  C7. An explicit source name that is not among the available sources makes
  \<open>collect_businesses\<close> raise \<open>ValueError\<close> at once: no adapter is called, so neither the
  named source nor Mock is tried.
\<close>

theorem collect_businesses_unknown_source:
  assumes "source \<noteq> ''auto''" and "source \<notin> set (get_available_sources dc)"
  shows "collect_businesses now dc location source query category limit =
           ([], Inl (ValueError (''Source '' @ [CHR 0x27] @ source @ [CHR 0x27]
                       @ '' not available. Available: '' @ repr_names (get_available_sources dc))))"
proof -
  have "resolve_source dc source = source"
    using assms(1) by (simp add: resolve_source_def)
  moreover have "map_of (sources dc) source = None"
    using assms(2) by (simp add: map_of_None_iff_available)
  ultimately show ?thesis by (simp add: collect_businesses.simps)
qed

theorem collect_businesses_unknown_source_witness:
  "collect_businesses ''2024-01-01T00:00:00''
     \<lparr>sources = [(''mock'', canned_source []), (''foursquare'', canned_source [])]\<rparr>
     ''New York'' ''bogus'' [] [] 10
   = ([], Inl (ValueError (''Source '' @ [CHR 0x27] @ ''bogus'' @ [CHR 0x27]
                 @ '' not available. Available: ''
                 @ ''['' @ [CHR 0x27] @ ''mock'' @ [CHR 0x27] @ '', ''
                 @ [CHR 0x27] @ ''foursquare'' @ [CHR 0x27] @ '']'')))"
  using collect_businesses_unknown_source
          [of "''bogus''" "\<lparr>sources = [(''mock'', canned_source []), (''foursquare'', canned_source [])]\<rparr>"
              "''2024-01-01T00:00:00''" "''New York''" "[]" "[]" 10]
  by (simp add: get_available_sources_def repr_names_def)


text \<open>
  C1 (as amended). When the resolved source is not Mock and its search raises, the aggregator
  calls Mock exactly once with the same arguments and hands back what that call produces:
  with Mock's search returning, a dictionary whose \<open>source\<close> is \<open>mock\<close> and whose
  \<open>success\<close> is true, each business tagged \<open>data_source = mock\<close>. The value is the one a
  direct request for source \<open>mock\<close> returns, so nothing in it marks the request as a
  fallback.
\<close>

theorem collect_businesses_fallback_to_mock:
  assumes "resolve_source dc source \<noteq> ''mock''"
    and "map_of (sources dc) (resolve_source dc source) = Some ds"
    and "search_businesses ds
           \<lparr>arg_location = location, arg_query = query, arg_category = category, arg_limit = limit\<rparr> = Inl e"
    and "map_of (sources dc) ''mock'' = Some m"
    and "search_businesses m
           \<lparr>arg_location = location, arg_query = query, arg_category = category, arg_limit = limit\<rparr> = Inr bs"
  shows "collect_businesses now dc location source query category limit =
           ([SearchCall (resolve_source dc source)
               \<lparr>arg_location = location, arg_query = query, arg_category = category, arg_limit = limit\<rparr>,
             SearchCall ''mock''
               \<lparr>arg_location = location, arg_query = query, arg_category = category, arg_limit = limit\<rparr>],
            Inr (search_result now ''mock'' location query category
                   (map (\<lambda>business. dict_set business ''data_source'' (PStr ''mock'')) bs)))
         \<and> dict_get (search_result now ''mock'' location query category
                        (map (\<lambda>business. dict_set business ''data_source'' (PStr ''mock'')) bs))
               ''source'' = Some (PStr ''mock'')
         \<and> dict_get (search_result now ''mock'' location query category
                        (map (\<lambda>business. dict_set business ''data_source'' (PStr ''mock'')) bs))
               ''success'' = Some (PBool True)
         \<and> snd (collect_businesses now dc location source query category limit) =
             snd (collect_businesses now dc location ''mock'' query category limit)"
proof -
  have direct: "collect_businesses now dc location ''mock'' query category limit =
           ([SearchCall ''mock''
               \<lparr>arg_location = location, arg_query = query, arg_category = category, arg_limit = limit\<rparr>],
            Inr (search_result now ''mock'' location query category
                   (map (\<lambda>business. dict_set business ''data_source'' (PStr ''mock'')) bs)))"
    using collect_businesses_mock_direct [OF assms(4)] assms(5) by simp
  have fb: "collect_businesses now dc location source query category limit =
           (SearchCall (resolve_source dc source)
              \<lparr>arg_location = location, arg_query = query, arg_category = category, arg_limit = limit\<rparr>
            # fst (collect_businesses now dc location ''mock'' query category limit),
            snd (collect_businesses now dc location ''mock'' query category limit))"
    by (rule collect_businesses_fallback [OF assms(1-4)])
  show ?thesis
    unfolding fb unfolding direct
    by (simp add: dict_get_def search_result_def)
qed

theorem collect_businesses_fallback_to_mock_witness:
  "collect_businesses ''2024-01-01T00:00:00''
     \<lparr>sources = [(''mock'', canned_source [[(''name'', PStr ''Central Perk'')]]),
                 (''foursquare'', raising_source (GenericException ''Foursquare API error''))]\<rparr>
     ''New York'' ''auto'' [] [] 10
   = ([SearchCall ''foursquare''
         \<lparr>arg_location = ''New York'', arg_query = [], arg_category = [], arg_limit = 10\<rparr>,
       SearchCall ''mock''
         \<lparr>arg_location = ''New York'', arg_query = [], arg_category = [], arg_limit = 10\<rparr>],
      Inr (search_result ''2024-01-01T00:00:00'' ''mock'' ''New York'' [] []
             [[(''name'', PStr ''Central Perk''), (''data_source'', PStr ''mock'')]]))"
  using collect_businesses_fallback_to_mock
          [of "\<lparr>sources = [(''mock'', canned_source [[(''name'', PStr ''Central Perk'')]]),
                 (''foursquare'', raising_source (GenericException ''Foursquare API error''))]\<rparr>"
              "''auto''" "raising_source (GenericException ''Foursquare API error'')"
              "''New York''" "[]" "[]" 10 "GenericException ''Foursquare API error''"
              "canned_source [[(''name'', PStr ''Central Perk'')]]"
              "[[(''name'', PStr ''Central Perk'')]]" "''2024-01-01T00:00:00''"]
  by (simp add: resolve_source_def get_primary_source_def get_available_sources_def
        raising_source_def canned_source_def)

text \<open>
  The claim as stated asks for a flag that marks a fallback. At this input the Foursquare
  adapter raises, and the dictionary returned is, field for field, the dictionary of a direct
  request to Mock: nine fields, none of them a fallback flag.
\<close>

theorem collect_businesses_fallback_flag_counterexample:
  "snd (collect_businesses ''2024-01-01T00:00:00''
          \<lparr>sources = [(''mock'', canned_source [[(''name'', PStr ''Central Perk'')]]),
                      (''foursquare'', raising_source (GenericException ''Foursquare API error''))]\<rparr>
          ''New York'' ''foursquare'' [] [] 10)
   = Inr [(''success'', PBool True),
          (''source'', PStr ''mock''),
          (''location'', PStr ''New York''),
          (''query'', PStr []),
          (''category'', PStr []),
          (''count'', PInt 1),
          (''businesses'', PList [PDict [(''name'', PStr ''Central Perk''), (''data_source'', PStr ''mock'')]]),
          (''timestamp'', PStr ''2024-01-01T00:00:00''),
          (''cache_info'', PDict [(''cached'', PBool False), (''source'', PStr ''generated'')])]
   \<and> snd (collect_businesses ''2024-01-01T00:00:00''
          \<lparr>sources = [(''mock'', canned_source [[(''name'', PStr ''Central Perk'')]]),
                      (''foursquare'', raising_source (GenericException ''Foursquare API error''))]\<rparr>
          ''New York'' ''foursquare'' [] [] 10)
     = snd (collect_businesses ''2024-01-01T00:00:00''
          \<lparr>sources = [(''mock'', canned_source [[(''name'', PStr ''Central Perk'')]]),
                      (''foursquare'', raising_source (GenericException ''Foursquare API error''))]\<rparr>
          ''New York'' ''mock'' [] [] 10)"
  by (simp add: collect_businesses.simps resolve_source_def raising_source_def canned_source_def
        search_result_def)

text \<open>
  C10. \<open>get_business_details\<close> and \<open>get_business_reviews\<close> of the aggregator never
  raise. An unknown source name gives \<open>None\<close> and the empty list without any adapter call;
  an exception of the named adapter gives \<open>None\<close> and the empty list after that one call,
  and no other source (Mock included) is tried.
\<close>

theorem details_and_reviews_absorb_errors:
  "(map_of (sources dc) source = None \<longrightarrow>
      DataCollector_get_business_details dc business_id source = ([], Inr None)
      \<and> DataCollector_get_business_reviews dc business_id source limit = ([], Inr []))
   \<and> (\<forall>ds e. map_of (sources dc) source = Some ds \<and> get_business_details ds business_id = Inl e \<longrightarrow>
        DataCollector_get_business_details dc business_id source =
          ([DetailsCall source business_id], Inr None))
   \<and> (\<forall>ds e. map_of (sources dc) source = Some ds \<and> get_reviews ds business_id limit = Inl e \<longrightarrow>
        DataCollector_get_business_reviews dc business_id source limit =
          ([ReviewsCall source business_id limit], Inr []))
   \<and> (\<exists>d. snd (DataCollector_get_business_details dc business_id source) = Inr d)
   \<and> (\<exists>r. snd (DataCollector_get_business_reviews dc business_id source limit) = Inr r)"
  by (auto simp: DataCollector_get_business_details_def DataCollector_get_business_reviews_def
           split: option.splits sum.splits)

theorem details_and_reviews_absorb_errors_witness:
  "DataCollector_get_business_details
     \<lparr>sources = [(''mock'', canned_source []),
                 (''foursquare'', raising_source (RequestException ''timeout''))]\<rparr>
     ''4b5f'' ''bogus'' = ([], Inr None)
   \<and> DataCollector_get_business_reviews
     \<lparr>sources = [(''mock'', canned_source []),
                 (''foursquare'', raising_source (RequestException ''timeout''))]\<rparr>
     ''4b5f'' ''bogus'' 20 = ([], Inr [])
   \<and> DataCollector_get_business_details
     \<lparr>sources = [(''mock'', canned_source []),
                 (''foursquare'', raising_source (RequestException ''timeout''))]\<rparr>
     ''4b5f'' ''foursquare'' = ([DetailsCall ''foursquare'' ''4b5f''], Inr None)
   \<and> DataCollector_get_business_reviews
     \<lparr>sources = [(''mock'', canned_source []),
                 (''foursquare'', raising_source (RequestException ''timeout''))]\<rparr>
     ''4b5f'' ''foursquare'' 20 = ([ReviewsCall ''foursquare'' ''4b5f'' 20], Inr [])"
  using details_and_reviews_absorb_errors
          [of "\<lparr>sources = [(''mock'', canned_source []),
                 (''foursquare'', raising_source (RequestException ''timeout''))]\<rparr>"
              "''bogus''" "''4b5f''" 20]
        details_and_reviews_absorb_errors
          [of "\<lparr>sources = [(''mock'', canned_source []),
                 (''foursquare'', raising_source (RequestException ''timeout''))]\<rparr>"
              "''foursquare''" "''4b5f''" 20]
  by (simp add: raising_source_def)

section \<open>Properties of the competitor analysis and of the views\<close>

lemma collect_businesses_calls_carry_limit:
  "\<forall>c \<in> set (fst (collect_businesses now dc location source query category limit)).
     \<exists>s. c = SearchCall s \<lparr>arg_location = location, arg_query = query,
                             arg_category = category, arg_limit = limit\<rparr>"
proof (induction now dc location source query category limit rule: collect_businesses.induct)
  case (1 now dc location source query category limit)
  show ?case
  proof (cases "map_of (sources dc) (resolve_source dc source)")
    case None
    then show ?thesis by (simp add: collect_businesses.simps)
  next
    case (Some ds)
    show ?thesis
    proof (cases "search_businesses ds
                    \<lparr>arg_location = location, arg_query = query, arg_category = category, arg_limit = limit\<rparr>")
      case (Inr bs)
      then show ?thesis using Some by (simp add: collect_businesses.simps)
    next
      case (Inl e)
      show ?thesis
      proof (cases "resolve_source dc source \<noteq> ''mock'' \<and> ''mock'' \<in> set (map fst (sources dc))")
        case True
        have ih: "\<forall>c \<in> set (fst (collect_businesses now dc location ''mock'' query category limit)).
                    \<exists>s. c = SearchCall s \<lparr>arg_location = location, arg_query = query,
                                            arg_category = category, arg_limit = limit\<rparr>"
          using "1.IH" [OF Some Inl True] .
        show ?thesis
          using Some Inl True ih
          by (subst collect_businesses.simps) (auto split: prod.splits)
      next
        case False
        then show ?thesis using Some Inl by (subst collect_businesses.simps) auto
      qed
    qed
  qed
qed

lemma BusinessSearchView_get_clamps_limit:
  "\<forall>c \<in> set (fst (BusinessSearchView_get d request)).
     \<exists>s a. c = SearchCall s a \<and> 1 \<le> arg_limit a \<and> arg_limit a \<le> 50"
proof (cases "parse_limit (search_limit request) 10")
  case (Inl e)
  then show ?thesis by (simp add: BusinessSearchView_get_def)
next
  case (Inr limit)
  let ?cb = "collect_businesses (timestamp_now d) (initialize_sources d)
               (param_or (search_location request) (DEFAULT_LOCATION (conf d)))
               (param_or (search_source request) ''auto'')
               (param_or (search_query request) [])
               (param_or (search_category request) [])
               (min (max limit 1) 50)"
  have calls: "fst (BusinessSearchView_get d request) = fst ?cb"
    using Inr by (simp add: BusinessSearchView_get_def split: prod.splits sum.splits)
  show ?thesis
    unfolding calls
    using collect_businesses_calls_carry_limit
            [of "timestamp_now d" "initialize_sources d"
                "param_or (search_location request) (DEFAULT_LOCATION (conf d))"
                "param_or (search_source request) ''auto''"
                "param_or (search_query request) []"
                "param_or (search_category request) []"
                "min (max limit 1) 50"]
    by fastforce
qed

lemma collect_competitors_calls:
  "fst (collect_competitors now dc business_name location category limit) =
     fst (collect_businesses now dc location ''auto'' category [] (limit * 2))"
  by (simp add: collect_competitors_def split: prod.splits sum.splits)

lemma CompetitorAnalysisView_get_calls:
  assumes "competitor_limit request = IntLimit i"
    and "competitor_business request = Some name" and "name \<noteq> []"
  shows "fst (CompetitorAnalysisView_get d request) =
           fst (collect_businesses (timestamp_now d) (initialize_sources d)
                  (param_or (competitor_location request) (DEFAULT_LOCATION (conf d)))
                  ''auto'' (param_or (competitor_category request) []) [] (i * 2))"
proof -
  obtain calls r where cc:
    "collect_competitors (timestamp_now d) (initialize_sources d) name
       (param_or (competitor_location request) (DEFAULT_LOCATION (conf d)))
       (param_or (competitor_category request) []) i = (calls, r)"
    by force
  have "calls = fst (collect_businesses (timestamp_now d) (initialize_sources d)
                  (param_or (competitor_location request) (DEFAULT_LOCATION (conf d)))
                  ''auto'' (param_or (competitor_category request) []) [] (i * 2))"
    using collect_competitors_calls
            [of "timestamp_now d" "initialize_sources d" name
                "param_or (competitor_location request) (DEFAULT_LOCATION (conf d))"
                "param_or (competitor_category request) []" i]
    by (simp only: cc fst_conv)
  then show ?thesis
    using assms cc
    by (cases r) (simp_all add: CompetitorAnalysisView_get_def parse_limit_def param_or_def)
qed

text \<open>
  C3, at the failing input. The search view clamps the limit to 1..50 before it calls the
  aggregator; the competitor view does not, and \<open>collect_competitors\<close> doubles what it is
  given. With Foursquare configured, a competitor request with \<open>limit=100\<close> reaches the
  Foursquare adapter with limit 200, and one with \<open>limit=-3\<close> reaches it with limit -6,
  which the adapter, capping at 50 from above only, sends on to the API as it is.
\<close>

theorem competitor_view_passes_unclamped_limit:
  "fst (CompetitorAnalysisView_get
          \<lparr>conf = \<lparr>FOURSQUARE_CLIENT_ID = Some ''id'', FOURSQUARE_CLIENT_SECRET = Some ''secret'',
                    FOURSQUARE_API_KEY = None, DEFAULT_LOCATION = ''New York''\<rparr>,
            mock_adapter = canned_source [], foursquare_adapter = canned_source [],
            timestamp_now = ''2024-01-01T00:00:00''\<rparr>
          \<lparr>competitor_business = Some ''Joe'', competitor_location = None,
            competitor_category = None, competitor_limit = IntLimit 100\<rparr>)
     = [SearchCall ''foursquare''
          \<lparr>arg_location = ''New York'', arg_query = [], arg_category = [], arg_limit = 200\<rparr>]
   \<and> fst (CompetitorAnalysisView_get
          \<lparr>conf = \<lparr>FOURSQUARE_CLIENT_ID = Some ''id'', FOURSQUARE_CLIENT_SECRET = Some ''secret'',
                    FOURSQUARE_API_KEY = None, DEFAULT_LOCATION = ''New York''\<rparr>,
            mock_adapter = canned_source [], foursquare_adapter = canned_source [],
            timestamp_now = ''2024-01-01T00:00:00''\<rparr>
          \<lparr>competitor_business = Some ''Joe'', competitor_location = None,
            competitor_category = None, competitor_limit = IntLimit (- 3)\<rparr>)
     = [SearchCall ''foursquare''
          \<lparr>arg_location = ''New York'', arg_query = [], arg_category = [], arg_limit = - 6\<rparr>]
   \<and> dict_get (search_params ''New York'' [] [] 5000 (- 6)) ''limit'' = Some (PInt (- 6))"
proof -
  let ?d = "\<lparr>conf = \<lparr>FOURSQUARE_CLIENT_ID = Some ''id'', FOURSQUARE_CLIENT_SECRET = Some ''secret'',
                    FOURSQUARE_API_KEY = None, DEFAULT_LOCATION = ''New York''\<rparr>,
            mock_adapter = canned_source [], foursquare_adapter = canned_source [],
            timestamp_now = ''2024-01-01T00:00:00''\<rparr>"
  have src: "sources (initialize_sources ?d) = [(''mock'', canned_source []), (''foursquare'', canned_source [])]"
    by (simp add: initialize_sources_def truthy_setting_def FoursquareSource_constructible_def)
  have cb: "fst (collect_businesses ''2024-01-01T00:00:00'' (initialize_sources ?d) ''New York'' ''auto'' [] [] l)
              = [SearchCall ''foursquare''
                   \<lparr>arg_location = ''New York'', arg_query = [], arg_category = [], arg_limit = l\<rparr>]" for l
    by (simp add: collect_businesses.simps src resolve_source_def get_primary_source_def
          get_available_sources_def canned_source_search)
  show ?thesis
    using CompetitorAnalysisView_get_calls
            [of "\<lparr>competitor_business = Some ''Joe'', competitor_location = None,
                   competitor_category = None, competitor_limit = IntLimit 100\<rparr>" 100 "''Joe''" ?d]
          CompetitorAnalysisView_get_calls
            [of "\<lparr>competitor_business = Some ''Joe'', competitor_location = None,
                   competitor_category = None, competitor_limit = IntLimit (- 3)\<rparr>" "- 3" "''Joe''" ?d]
    by (simp add: param_or_def cb search_params_def dict_get_def)
qed

section \<open>Facts about the competitor analysis\<close>

lemma round_double_abs_le: "\<bar>round_double x\<bar> \<le> 2 * \<bar>x\<bar>"
proof (cases "x = 0")
  case True
  then show ?thesis by (simp add: round_double_def)
next
  case False
  then have pos: "0 < \<bar>x\<bar>" by simp
  define L where "L = fl_exponent x"
  define e where "e = L - 52"
  have b: "2 powi L \<le> \<bar>x\<bar>"
    using fl_exponent_bounds_pos [OF pos] by (simp add: fl_exponent_abs L_def)
  have pe: "(0::rat) < 2 powi e" by simp
  have rd: "round_double x = of_int (round_half_even (x / 2 powi e)) * 2 powi e"
    using False by (simp add: round_double_def L_def e_def)
  have "round_double x - x = (of_int (round_half_even (x / 2 powi e)) - x / 2 powi e) * 2 powi e"
    using pe by (simp add: rd field_simps)
  then have "\<bar>round_double x - x\<bar> = \<bar>of_int (round_half_even (x / 2 powi e)) - x / 2 powi e\<bar> * 2 powi e"
    using pe by (simp add: abs_mult)
  also have "\<dots> \<le> 1 / 2 * 2 powi e"
    using round_half_even_error [of "x / 2 powi e"] pe by (intro mult_right_mono) simp_all
  also have "\<dots> = 2 powi (e - 1)"
    by (simp add: power_int_diff)
  also have "\<dots> \<le> 2 powi L"
    by (intro power_int_increasing) (simp_all add: e_def)
  also have "\<dots> \<le> \<bar>x\<bar>" by (rule b)
  finally have "\<bar>round_double x - x\<bar> \<le> \<bar>x\<bar>" .
  then show ?thesis by linarith
qed

lemma not_float_overflows:
  assumes "\<bar>x\<bar> < 2 ^ 1023"
  shows "\<not> float_overflows x"
proof -
  have "\<bar>round_double x\<bar> \<le> 2 * \<bar>x\<bar>" by (rule round_double_abs_le)
  also have "\<dots> < 2 * 2 ^ 1023" using assms by simp
  finally show ?thesis by (simp add: float_overflows_def)
qed

lemma int_to_float_total:
  assumes "\<bar>i\<bar> < 2 ^ 1023"
  shows "int_to_float i = Inr (round_double (of_int i))"
proof -
  have "(of_int \<bar>i\<bar> :: rat) < of_int (2 ^ 1023)"
    using assms by (simp only: of_int_less_iff)
  then have "\<bar>of_int i :: rat\<bar> < 2 ^ 1023" by simp
  then show ?thesis
    using not_float_overflows by (simp add: int_to_float_def)
qed

lemma plain_number_cases:
  assumes "plain_number v"
  obtains i where "v = PInt i" and "\<bar>i\<bar> < 2 ^ 63" | x where "v = PFloat x"
  using assms by (cases v) auto

lemma int_mass_nonneg: "0 \<le> int_mass xs"
  by (induction xs rule: int_mass.induct) auto

lemma int_mass_le:
  assumes "\<forall>v \<in> set xs. plain_number v"
  shows "int_mass xs \<le> int (length xs) * 2 ^ 63"
  using assms
proof (induction xs)
  case Nil
  then show ?case by simp
next
  case (Cons v xs)
  have ih: "int_mass xs \<le> int (length xs) * 2 ^ 63"
    using Cons by simp
  have "plain_number v" using Cons.prems by simp
  then show ?case
    using ih by (cases v rule: plain_number_cases) (simp_all add: algebra_simps)
qed

lemma sum_rest_total:
  assumes "\<forall>v \<in> set xs. plain_number v" and "num_mass r + int_mass xs < 2 ^ 1023"
  shows "\<exists>s. sum_rest r xs = Inr s \<and> num_mass s \<le> num_mass r + int_mass xs"
  using assms
proof (induction xs arbitrary: r)
  case Nil
  then show ?case by simp
next
  case (Cons v xs)
  have pv: "plain_number v" and pxs: "\<forall>v \<in> set xs. plain_number v"
    using Cons.prems(1) by simp_all
  have nn: "0 \<le> int_mass xs" by (rule int_mass_nonneg)
  from pv show ?case
  proof (cases v rule: plain_number_cases)
    case (1 i)
    show ?thesis
    proof (cases r)
      case (NInt a)
      have "num_mass (NInt (a + i)) + int_mass xs < 2 ^ 1023"
        using Cons.prems(2) 1 NInt by simp
      from Cons.IH [OF pxs this] show ?thesis
        using 1 NInt by auto
    next
      case (NFloat x)
      have i: "\<bar>i\<bar> < 2 ^ 1023"
        using Cons.prems(2) 1 NFloat nn by simp
      have "num_mass (NFloat (fadd x (round_double (of_int i)))) + int_mass xs < 2 ^ 1023"
        using Cons.prems(2) 1 NFloat by simp
      from Cons.IH [OF pxs this] show ?thesis
        using 1 NFloat nn by (auto simp: int_to_float_total [OF i])
    qed
  next
    case (2 y)
    show ?thesis
    proof (cases r)
      case (NInt a)
      have a: "\<bar>a\<bar> < 2 ^ 1023"
        using Cons.prems(2) 2 NInt nn by simp
      have "num_mass (NFloat (fadd (round_double (of_int a)) y)) + int_mass xs < 2 ^ 1023"
        using Cons.prems(2) 2 NInt by simp
      from Cons.IH [OF pxs this] show ?thesis
        using 2 NInt nn by (auto simp: int_to_float_total [OF a])
    next
      case (NFloat x)
      have "num_mass (NFloat (fadd x y)) + int_mass xs < 2 ^ 1023"
        using Cons.prems(2) 2 NFloat by simp
      from Cons.IH [OF pxs this] show ?thesis
        using 2 NFloat by auto
    qed
  qed
qed

lemma sum_floats_total:
  assumes "\<forall>v \<in> set xs. plain_number v"
  shows "\<exists>s. sum_floats f c xs = Inr (NFloat s)"
  using assms
proof (induction xs arbitrary: f c)
  case Nil
  then show ?case by simp
next
  case (Cons v xs)
  have pv: "plain_number v" and pxs: "\<forall>v \<in> set xs. plain_number v"
    using Cons.prems by simp_all
  from pv show ?case
  proof (cases v rule: plain_number_cases)
    case (1 i)
    have "fits_long i"
      using 1(2) unfolding fits_long_def by linarith
    then show ?thesis
      using 1(1) Cons.IH [OF pxs] by simp
  next
    case (2 y)
    then show ?thesis
      using Cons.IH [OF pxs] by simp
  qed
qed

lemma sum_ints_total:
  assumes "\<forall>v \<in> set xs. plain_number v" and "\<bar>i\<bar> + int_mass xs < 2 ^ 1023"
  shows "\<exists>s. sum_ints i xs = Inr s \<and> num_mass s \<le> \<bar>i\<bar> + int_mass xs"
  using assms
proof (induction xs arbitrary: i)
  case Nil
  then show ?case by simp
next
  case (Cons v xs)
  have pv: "plain_number v" and pxs: "\<forall>v \<in> set xs. plain_number v"
    using Cons.prems(1) by simp_all
  have nn: "0 \<le> int_mass xs" by (rule int_mass_nonneg)
  from pv show ?case
  proof (cases v rule: plain_number_cases)
    case (1 b)
    have bound: "\<bar>i + b\<bar> + int_mass xs < 2 ^ 1023"
      using Cons.prems(2) 1 by simp
    show ?thesis
    proof (cases "fits_long b \<and> fits_long (i + b)")
      case True
      from Cons.IH [OF pxs bound] show ?thesis
        using 1 True by auto
    next
      case False
      have "num_mass (NInt (i + b)) + int_mass xs < 2 ^ 1023"
        using bound by simp
      from sum_rest_total [OF pxs this] show ?thesis
        using 1 False by (auto simp: sum_onwards_def)
    qed
  next
    case (2 y)
    have i: "\<bar>i\<bar> < 2 ^ 1023"
      using Cons.prems(2) 2 nn by simp
    obtain s where "sum_floats (fadd (round_double (of_int i)) y) 0 xs = Inr (NFloat s)"
      using sum_floats_total [OF pxs] by blast
    then show ?thesis
      using 2 nn by (simp add: sum_onwards_def int_to_float_total [OF i])
  qed
qed

lemma py_truediv_total:
  assumes "0 < n" and "int n < 2 ^ 1023" and "num_mass s < 2 ^ 1023"
  shows "\<exists>q. py_truediv s n = Inr (NFloat q)"
proof (cases s)
  case (NInt a)
  have n1: "(1::rat) \<le> of_nat n" using assms(1) by simp
  have "(of_int \<bar>a\<bar> :: rat) < of_int (2 ^ 1023)"
    using assms(3) NInt by (simp only: of_int_less_iff num_mass.simps)
  then have a: "\<bar>of_int a :: rat\<bar> < 2 ^ 1023" by simp
  have "\<bar>of_int a / of_nat n :: rat\<bar> = \<bar>of_int a\<bar> / of_nat n" by simp
  also have "\<dots> \<le> \<bar>of_int a\<bar> / 1"
    using n1 by (intro divide_left_mono) simp_all
  finally have "\<bar>of_int a / of_nat n :: rat\<bar> < 2 ^ 1023" using a by simp
  then have "\<not> float_overflows (of_int a / of_nat n)"
    by (rule not_float_overflows)
  then show ?thesis
    using NInt assms(1) by simp
next
  case (NFloat x)
  have "\<bar>int n\<bar> < 2 ^ 1023" using assms(2) by simp
  then show ?thesis
    using NFloat assms(1) by (simp add: int_to_float_total)
qed

lemma py_mean_total:
  assumes "\<forall>v \<in> set xs. plain_number v" and "length xs \<le> 2 ^ 32"
  shows "\<exists>m. py_mean xs = Inr m"
proof (cases "xs = []")
  case True
  then show ?thesis by (simp add: py_mean_def)
next
  case False
  have "int (length xs) \<le> 2 ^ 32"
    using assms(2) by (metis of_nat_le_iff of_nat_numeral of_nat_power)
  then have "int (length xs) * 2 ^ 63 \<le> 2 ^ 32 * 2 ^ 63"
    by (intro mult_right_mono) simp_all
  then have mass: "int_mass xs \<le> 2 ^ 32 * 2 ^ 63"
    using int_mass_le [OF assms(1)] by linarith
  have "\<bar>0::int\<bar> + int_mass xs < 2 ^ 1023"
    using mass by simp
  from sum_ints_total [OF assms(1) this]
  obtain s where s: "py_sum xs = Inr s" "num_mass s \<le> int_mass xs"
    by (auto simp: py_sum_def)
  have n: "0 < length xs" using False by simp
  have len: "int (length xs) < 2 ^ 1023"
    using \<open>int (length xs) \<le> 2 ^ 32\<close> by simp
  have "num_mass s < 2 ^ 1023" using s(2) mass by simp
  from py_truediv_total [OF n len this] show ?thesis
    using False s(1) by (auto simp: py_mean_def)
qed

lemma well_shaped_name: "well_shaped b \<Longrightarrow> \<exists>s. dict_get b ''name'' = Some (PStr s)"
  by (auto simp: well_shaped_def split: option.splits pyval.splits)

lemma filter_competitors_named:
  assumes "\<forall>b \<in> set bs. \<exists>s. dict_get b ''name'' = Some (PStr s)"
  shows "filter_competitors business_name bs =
           Inr (filter (\<lambda>b. \<not> sublist (py_lower business_name) (py_lower (name_of b))) bs)"
  using assms by (induction bs) (auto simp: business_name_lower_def name_of_def)

lemma tip_count_of_well_shaped:
  "well_shaped b \<Longrightarrow> tip_count_of b = Inr (tips_of b) \<and> plain_number (tips_of b)"
  by (auto simp: well_shaped_def tip_count_of_def tips_of_def split: option.splits pyval.splits)

lemma review_counts_of_well_shaped:
  assumes "\<forall>b \<in> set bs. well_shaped b"
  shows "review_counts_of bs = Inr (map tips_of bs)"
  using assms by (induction bs) (auto simp: tip_count_of_well_shaped)

lemma ratings_of_numbers:
  assumes "\<forall>b \<in> set bs. well_shaped b"
  shows "\<forall>v \<in> set (ratings_of bs). plain_number v"
proof
  fix v assume "v \<in> set (ratings_of bs)"
  then obtain b where b: "b \<in> set bs" and v: "dict_get b ''rating'' = Some v" and t: "py_truthy v"
    by (auto simp: ratings_of_def split: option.splits if_splits)
  have "well_shaped b" using assms b by simp
  then show "plain_number v"
    using v t by (cases v) (auto simp: well_shaped_def)
qed

lemma length_ratings_of: "length (ratings_of bs) \<le> length bs"
  by (induction bs) (auto simp: ratings_of_def split: option.splits)

lemma set_py_slice_to: "set (py_slice_to xs n) \<subseteq> set xs"
  by (auto simp: py_slice_to_def dest: in_set_takeD)

lemma length_py_slice_to: "length (py_slice_to xs n) \<le> length xs"
  by (simp add: py_slice_to_def)

lemma competitor_averages_well_shaped:
  assumes "\<forall>b \<in> set cs. well_shaped b" and "length cs \<le> 2 ^ 32"
  shows "\<exists>avg_rating avg_reviews.
           py_mean (ratings_of cs) = Inr avg_rating
         \<and> py_mean (map tips_of cs) = Inr avg_reviews
         \<and> competitor_averages cs = Inr (avg_rating, avg_reviews)
         \<and> (cs = [] \<longrightarrow> avg_rating = NInt 0 \<and> avg_reviews = NInt 0)"
proof -
  have "length (ratings_of cs) \<le> 2 ^ 32"
    using length_ratings_of [of cs] assms(2) by linarith
  then obtain a where a: "py_mean (ratings_of cs) = Inr a"
    using py_mean_total [OF ratings_of_numbers [OF assms(1)]] by blast
  have "\<forall>v \<in> set (map tips_of cs). plain_number v"
    using assms(1) by (auto simp: tip_count_of_well_shaped)
  moreover have "length (map tips_of cs) \<le> 2 ^ 32"
    using assms(2) by simp
  ultimately obtain v where v: "py_mean (map tips_of cs) = Inr v"
    using py_mean_total by blast
  have rc: "review_counts_of cs = Inr (map tips_of cs)"
    by (rule review_counts_of_well_shaped [OF assms(1)])
  show ?thesis
  proof (cases "cs = []")
    case True
    then show ?thesis
      by (simp add: competitor_averages_def py_mean_def ratings_of_def)
  next
    case False
    then show ?thesis
      using a v rc by (simp add: competitor_averages_def)
  qed
qed

text \<open>The conversion of an integer to \<open>float\<close> at the edge of the format: the largest
  double is \<open>2 ^ 1024 - 2 ^ 971\<close>, and the first integer that rounds up to \<open>2 ^ 1024\<close>
  is \<open>2 ^ 1024 - 2 ^ 970\<close>.\<close>

lemma int_to_float_edge:
  "int_to_float (2 ^ 1024 - 2 ^ 970) = Inl (OverflowError ''int too large to convert to float'')"
  "int_to_float (2 ^ 1024 - 2 ^ 970 - 1) = Inr (2 ^ 1024 - 2 ^ 971)"
  using round_double_eq [of 971 "2 ^ 1024 - 2 ^ 970"]
    round_double_eq [of 971 "2 ^ 1024 - 2 ^ 970 - 1"]
  by (simp_all add: int_to_float_def float_overflows_def round_half_even_eval)

lemma py_truediv_overflow:
  "py_truediv (NInt (10 ^ 400)) 1 = Inl (OverflowError ''integer division result too large for a float'')"
  using round_double_eq [of 1276 "10 ^ 400"]
  by (simp add: float_overflows_def round_half_even_eval)

lemma py_lower_examples:
  "py_lower ''Pizza Palace'' = ''pizza palace''"
  "py_lower ''Sushi Zen'' = ''sushi zen''"
  "py_lower ''Taco Fiesta'' = ''taco fiesta''"
  "py_lower ''Burger Barn'' = ''burger barn''"
  "py_lower ''Noodle House'' = ''noodle house''"
  "py_lower [CHR ''C'', CHR ''A'', CHR ''F'', CHR 0xC9] = [CHR ''c'', CHR ''a'', CHR ''f'', CHR 0xE9]"
  "py_lower [CHR ''C'', CHR ''a'', CHR ''f'', CHR 0xE9, CHR '' '', CHR ''L'', CHR ''u'', CHR ''n'', CHR ''a'']
     = [CHR ''c'', CHR ''a'', CHR ''f'', CHR 0xE9, CHR '' '', CHR ''l'', CHR ''u'', CHR ''n'', CHR ''a'']"
  by code_simp+

lemma round_double_3_2: "round_double (3 / 2) = 3 / 2"
  using round_double_eq [of "-52" "3/2"]
  by (simp add: round_half_even_eval)

lemma round_double_17_2: "round_double (17 / 2) = 17 / 2"
  using round_double_eq [of "-49" "17/2"]
  by (simp add: round_half_even_eval)

lemma round_half_even_neg_numeral: "round_half_even (- numeral n) = - numeral n"
  using round_half_even_of_int [of "- numeral n"] by simp

text \<open>The roundings met when the doubles 6.3, 5.8, 5.2 and 5.4 are summed with
  compensation, the sum 22.7 is divided by 4, and the quotient 5.675 (a double just below
  the decimal) is rounded to 5.67.\<close>

lemma round_double_example_0:
  "round_double (7093169413108531 / 1125899906842624) = 7093169413108531 / 1125899906842624"
  using round_double_eq [of "-50" "7093169413108531 / 1125899906842624"]
  by (simp add: round_half_even_eval)

lemma round_double_example_1:
  "round_double (6811694436397875 / 562949953421312) = 6811694436397875 / 562949953421312"
  using round_double_eq [of "-49" "6811694436397875 / 562949953421312"]
  by (simp add: round_half_even_eval)

lemma round_double_example_2:
  "round_double (- (6530219459687219 / 1125899906842624)) = - (6530219459687219 / 1125899906842624)"
  using round_double_eq [of "-50" "- (6530219459687219 / 1125899906842624)"]
  by (simp add: round_half_even_eval round_half_even_neg_numeral)

lemma round_double_example_3:
  "round_double (19478068388377395 / 1125899906842624) = 4869517097094349 / 281474976710656"
  using round_double_eq [of "-48" "19478068388377395 / 1125899906842624"]
  by (simp add: round_half_even_eval)

lemma round_double_example_4:
  "round_double (- (2927339757790823 / 562949953421312)) = - (2927339757790823 / 562949953421312)"
  using round_double_eq [of "-50" "- (2927339757790823 / 562949953421312)"]
  by (simp add: round_half_even_eval round_half_even_neg_numeral)

lemma round_double_example_5:
  "round_double (- (1 / 1125899906842624)) = - (1 / 1125899906842624)"
  using round_double_eq [of "-102" "- (1 / 1125899906842624)"]
  by (simp add: round_half_even_eval round_half_even_neg_numeral)

lemma round_double_example_6:
  "round_double (12778963942663783 / 562949953421312) = 1597370492832973 / 70368744177664"
  using round_double_eq [of "-48" "12778963942663783 / 562949953421312"]
  by (simp add: round_half_even_eval)

lemma round_double_example_7:
  "round_double (- (1519964874237543 / 281474976710656)) = - (1519964874237543 / 281474976710656)"
  using round_double_eq [of "-50" "- (1519964874237543 / 281474976710656)"]
  by (simp add: round_half_even_eval round_half_even_neg_numeral)

lemma round_double_example_8:
  "round_double (- (1 / 562949953421312)) = - (1 / 562949953421312)"
  using round_double_eq [of "-101" "- (1 / 562949953421312)"]
  by (simp add: round_half_even_eval round_half_even_neg_numeral)

lemma round_double_example_9:
  "round_double (- (3 / 1125899906842624)) = - (3 / 1125899906842624)"
  using round_double_eq [of "-101" "- (3 / 1125899906842624)"]
  by (simp add: round_half_even_eval round_half_even_neg_numeral)

lemma round_double_example_10:
  "round_double (25557927885327565 / 1125899906842624) = 6389481971331891 / 281474976710656"
  using round_double_eq [of "-48" "25557927885327565 / 1125899906842624"]
  by (simp add: round_half_even_eval)

lemma round_double_example_11:
  "round_double (6389481971331891 / 1125899906842624) = 6389481971331891 / 1125899906842624"
  using round_double_eq [of "-50" "6389481971331891 / 1125899906842624"]
  by (simp add: round_half_even_eval)

lemma round_double_example_12:
  "round_double (567 / 100) = 3191926235898839 / 562949953421312"
  using round_double_eq [of "-50" "567 / 100"]
  by (simp add: round_half_even_eval)

lemma round_double_example_13:
  "round_double (6530219459687219 / 1125899906842624) = 6530219459687219 / 1125899906842624"
  using round_double_eq [of "-50" "6530219459687219 / 1125899906842624"]
  by (simp add: round_half_even_eval)

lemma round_double_example_14:
  "round_double (5854679515581645 / 1125899906842624) = 5854679515581645 / 1125899906842624"
  using round_double_eq [of "-50" "5854679515581645 / 1125899906842624"]
  by (simp add: round_half_even_eval)

lemma round_double_example_15:
  "round_double (3039929748475085 / 562949953421312) = 3039929748475085 / 562949953421312"
  using round_double_eq [of "-50" "3039929748475085 / 562949953421312"]
  by (simp add: round_half_even_eval)

lemma round_double_example_16:
  "round_double (7 / 4) = 7 / 4"
  using round_double_eq [of "-52" "7 / 4"]
  by (simp add: round_half_even_eval)

lemmas round_double_examples =
round_double_example_0 round_double_example_1 round_double_example_2 round_double_example_3 round_double_example_4 round_double_example_5 round_double_example_6 round_double_example_7 round_double_example_8 round_double_example_9 round_double_example_10 round_double_example_11 round_double_example_12 round_double_example_13 round_double_example_14 round_double_example_15 round_double_example_16

lemma py_mean_one_float: "py_mean [PFloat 9] = Inr (NFloat 9)"
  by (simp add: py_mean_def py_sum_def sum_onwards_def int_to_float_def float_overflows_def
        compensated_def fadd_def fdiv_def round_double_small_int)

lemma py_mean_two_ints: "py_mean [PInt 1, PInt 2] = Inr (NFloat (3 / 2))"
  by (simp add: py_mean_def py_sum_def fits_long_def float_overflows_def round_double_3_2)

lemma py_mean_four_floats:
  "py_mean [PFloat (7093169413108531 / 1125899906842624), PFloat (6530219459687219 / 1125899906842624),
            PFloat (5854679515581645 / 1125899906842624), PFloat (3039929748475085 / 562949953421312)]
     = Inr (NFloat (6389481971331891 / 1125899906842624))"
  by (simp add: py_mean_def py_sum_def sum_onwards_def int_to_float_def float_overflows_def
        compensated_def fadd_def fsub_def fdiv_def round_double_small_int round_double_examples)

lemma py_mean_four_ints: "py_mean [PInt 1, PInt 2, PInt 0, PInt 4] = Inr (NFloat (7 / 4))"
  by (simp add: py_mean_def py_sum_def fits_long_def float_overflows_def round_double_examples)

lemma py_round_examples:
  "py_round 9 2 = 9"
  "py_round (3 / 2) 0 = 2"
  "py_round (7 / 4) 0 = 2"
  "py_round (6389481971331891 / 1125899906842624) 2 = 3191926235898839 / 562949953421312"
  by (simp_all add: py_round_def round_half_even_eval round_double_small_int
        round_double_examples)

text \<open>
  C8 (as amended). For at most \<open>2 ^ 32\<close> search results of the shape described with
  \<open>well_shaped\<close>, on CPython 3.12 with a 64-bit \<open>long\<close> and names of code points up to
  U+00FF: the competitors are the results whose lower-cased name does not contain the
  lower-cased target name, cut by the slice \<open>[:limit]\<close>, and the analysis raises
  nothing. The reported rating is \<open>sum(ratings) / len(ratings)\<close> over the truthy ratings
  among them (a competitor without a rating, or rated 0, is left out; with none rated it is
  0), rounded to two decimals; the reported review count is the same quotient over their
  \<open>tip_count\<close>s (a missing one counting 0), rounded to a whole number, ties to even. With
  no competitor left both are the integer 0.
\<close>

theorem collect_competitors_analysis:
  assumes "collect_businesses now dc location ''auto'' category [] (limit * 2) = (calls, Inr sr)"
    and "\<forall>b \<in> set (result_businesses sr). well_shaped b"
    and "length (result_businesses sr) \<le> 2 ^ 32"
  shows "\<exists>avg_rating avg_reviews rating reviews.
           py_mean (ratings_of (remaining_competitors business_name limit (result_businesses sr)))
             = Inr avg_rating
         \<and> py_mean (map tips_of (remaining_competitors business_name limit (result_businesses sr)))
             = Inr avg_reviews
         \<and> rating = pyval_of (py_round_num avg_rating 2)
         \<and> reviews = pyval_of (py_round_num avg_reviews 0)
         \<and> (remaining_competitors business_name limit (result_businesses sr) = []
              \<longrightarrow> rating = PInt 0 \<and> reviews = PInt 0)
         \<and> collect_competitors now dc business_name location category limit =
             (calls,
              Inr [(''success'', PBool True),
                   (''source'', result_source sr),
                   (''target_business'', PStr business_name),
                   (''competitors_count'',
                    PInt (int (length (remaining_competitors business_name limit (result_businesses sr))))),
                   (''competitors'',
                    PList (map PDict (remaining_competitors business_name limit (result_businesses sr)))),
                   (''analysis'',
                    PDict [(''average_competitor_rating'', rating),
                           (''average_competitor_reviews'', reviews),
                           (''market_saturation'',
                            PInt (int (length (remaining_competitors business_name limit
                                                 (result_businesses sr)))))])])"
proof -
  define R where "R = remaining_competitors business_name limit (result_businesses sr)"
  have named: "\<forall>b \<in> set (result_businesses sr). \<exists>s. dict_get b ''name'' = Some (PStr s)"
    using assms(2) well_shaped_name by blast
  have fc: "filter_competitors business_name (result_businesses sr) =
              Inr (filter (\<lambda>b. \<not> sublist (py_lower business_name) (py_lower (name_of b)))
                     (result_businesses sr))"
    by (rule filter_competitors_named [OF named])
  have "set R \<subseteq> set (result_businesses sr)"
    using set_py_slice_to by (fastforce simp: R_def remaining_competitors_def)
  then have ws: "\<forall>b \<in> set R. well_shaped b"
    using assms(2) by blast
  have "length R \<le> length (filter (\<lambda>b. \<not> sublist (py_lower business_name) (py_lower (name_of b)))
                              (result_businesses sr))"
    unfolding R_def remaining_competitors_def by (rule length_py_slice_to)
  also have "\<dots> \<le> length (result_businesses sr)" by (rule length_filter_le)
  finally have len: "length R \<le> 2 ^ 32" using assms(3) by linarith
  obtain a v where av:
    "py_mean (ratings_of R) = Inr a"
    "py_mean (map tips_of R) = Inr v"
    "competitor_averages R = Inr (a, v)"
    "R = [] \<longrightarrow> a = NInt 0 \<and> v = NInt 0"
    using competitor_averages_well_shaped [OF ws len] by blast
  have zero: "R = [] \<longrightarrow> pyval_of (py_round_num a 2) = PInt 0 \<and> pyval_of (py_round_num v 0) = PInt 0"
    using av(4) by auto
  have cc: "collect_competitors now dc business_name location category limit =
             (calls,
              Inr [(''success'', PBool True),
                   (''source'', result_source sr),
                   (''target_business'', PStr business_name),
                   (''competitors_count'', PInt (int (length R))),
                   (''competitors'', PList (map PDict R)),
                   (''analysis'',
                    PDict [(''average_competitor_rating'', pyval_of (py_round_num a 2)),
                           (''average_competitor_reviews'', pyval_of (py_round_num v 0)),
                           (''market_saturation'', PInt (int (length R)))])])"
    using av(3)
    by (simp add: collect_competitors_def assms(1) fc R_def remaining_competitors_def)
  show ?thesis
    using av(1) av(2) zero cc unfolding R_def by blast
qed

theorem collect_competitors_analysis_witness:
  "collect_competitors ''2024-01-01T00:00:00''
     \<lparr>sources = [(''mock'', canned_source
         [
          [(''name'', PStr (''Caf'' @ [CHR 0xE9] @ '' Luna'')),
           (''rating'', PFloat (17 / 2)),
           (''stats'', PDict [(''tip_count'', PInt 10)])],
          [(''name'', PStr ''Sushi Zen''),
           (''rating'', PFloat (7093169413108531 / 1125899906842624)),
           (''stats'', PDict [(''tip_count'', PInt 1)])],
          [(''name'', PStr ''Taco Fiesta''),
           (''rating'', PFloat (6530219459687219 / 1125899906842624)),
           (''stats'', PDict [(''tip_count'', PInt 2)])],
          [(''name'', PStr ''Burger Barn''),
           (''rating'', PFloat (5854679515581645 / 1125899906842624))],
          [(''name'', PStr ''Noodle House''),
           (''rating'', PFloat (3039929748475085 / 562949953421312)),
           (''stats'', PDict [(''tip_count'', PInt 4)])]])]\<rparr>
     (''CAF'' @ [CHR 0xC9]) ''New York'' [] 5
   = ([SearchCall ''mock''
         \<lparr>arg_location = ''New York'', arg_query = [], arg_category = [], arg_limit = 10\<rparr>],
      Inr [(''success'', PBool True),
           (''source'', PStr ''mock''),
           (''target_business'', PStr (''CAF'' @ [CHR 0xC9])),
           (''competitors_count'', PInt 4),
           (''competitors'',
            PList [
                  PDict [(''name'', PStr ''Sushi Zen''),
                         (''rating'', PFloat (7093169413108531 / 1125899906842624)),
                         (''stats'', PDict [(''tip_count'', PInt 1)]),
                         (''data_source'', PStr ''mock'')],
                  PDict [(''name'', PStr ''Taco Fiesta''),
                         (''rating'', PFloat (6530219459687219 / 1125899906842624)),
                         (''stats'', PDict [(''tip_count'', PInt 2)]),
                         (''data_source'', PStr ''mock'')],
                  PDict [(''name'', PStr ''Burger Barn''),
                         (''rating'', PFloat (5854679515581645 / 1125899906842624)),
                         (''data_source'', PStr ''mock'')],
                  PDict [(''name'', PStr ''Noodle House''),
                         (''rating'', PFloat (3039929748475085 / 562949953421312)),
                         (''stats'', PDict [(''tip_count'', PInt 4)]),
                         (''data_source'', PStr ''mock'')]]),
           (''analysis'',
            PDict [(''average_competitor_rating'', PFloat (3191926235898839 / 562949953421312)),
                   (''average_competitor_reviews'', PFloat 2),
                   (''market_saturation'', PInt 4)])])"
proof -
  let ?cafe = "[(''name'', PStr (''Caf'' @ [CHR 0xE9] @ '' Luna'')),
          (''rating'', PFloat (17 / 2)),
          (''stats'', PDict [(''tip_count'', PInt 10)])]"
  let ?b1 = "[(''name'', PStr ''Sushi Zen''),
          (''rating'', PFloat (7093169413108531 / 1125899906842624)),
          (''stats'', PDict [(''tip_count'', PInt 1)])]"
  let ?b2 = "[(''name'', PStr ''Taco Fiesta''),
          (''rating'', PFloat (6530219459687219 / 1125899906842624)),
          (''stats'', PDict [(''tip_count'', PInt 2)])]"
  let ?b3 = "[(''name'', PStr ''Burger Barn''),
          (''rating'', PFloat (5854679515581645 / 1125899906842624))]"
  let ?b4 = "[(''name'', PStr ''Noodle House''),
          (''rating'', PFloat (3039929748475085 / 562949953421312)),
          (''stats'', PDict [(''tip_count'', PInt 4)])]"
  let ?ds = "[(''data_source'', PStr ''mock'')]"
  let ?dc = "\<lparr>sources = [(''mock'', canned_source [?cafe, ?b1, ?b2, ?b3, ?b4])]\<rparr>"
  let ?sr = "search_result ''2024-01-01T00:00:00'' ''mock'' ''New York'' [] []
               [?cafe @ ?ds, ?b1 @ ?ds, ?b2 @ ?ds, ?b3 @ ?ds, ?b4 @ ?ds]"
  let ?calls = "[SearchCall ''mock''
         \<lparr>arg_location = ''New York'', arg_query = [], arg_category = [], arg_limit = 10\<rparr>]"
  let ?target = "''CAF'' @ [CHR 0xC9]"
  have cb: "collect_businesses ''2024-01-01T00:00:00'' ?dc ''New York'' ''auto'' [] [] (5 * 2)
              = (?calls, Inr ?sr)"
    by (simp add: collect_businesses.simps resolve_source_def get_primary_source_def
          get_available_sources_def canned_source_search)
  have rb: "result_businesses ?sr = [?cafe @ ?ds, ?b1 @ ?ds, ?b2 @ ?ds, ?b3 @ ?ds, ?b4 @ ?ds]"
    by (simp add: result_businesses_def search_result_def dict_get_def)
  have ws: "\<forall>b \<in> set (result_businesses ?sr). well_shaped b"
    unfolding rb
    by (simp add: well_shaped_def dict_get_def round_double_17_2 round_double_examples
          power_int_minus)
  have len: "length (result_businesses ?sr) \<le> 2 ^ 32"
    unfolding rb by simp
  have R: "remaining_competitors ?target 5 (result_businesses ?sr)
             = [?b1 @ ?ds, ?b2 @ ?ds, ?b3 @ ?ds, ?b4 @ ?ds]"
    unfolding rb
    by (simp add: remaining_competitors_def name_of_def dict_get_def py_lower_examples
          py_slice_to_def sublist_code(3))
  have src: "result_source ?sr = PStr ''mock''"
    by (simp add: result_source_def search_result_def dict_get_def)
  have ratings: "py_mean (ratings_of [?b1 @ ?ds, ?b2 @ ?ds, ?b3 @ ?ds, ?b4 @ ?ds])
                   = Inr (NFloat (6389481971331891 / 1125899906842624))"
    by (simp add: ratings_of_def dict_get_def py_mean_four_floats)
  have tips: "py_mean (map tips_of [?b1 @ ?ds, ?b2 @ ?ds, ?b3 @ ?ds, ?b4 @ ?ds])
                = Inr (NFloat (7 / 4))"
    by (simp add: tips_of_def dict_get_def py_mean_four_ints)
  show ?thesis
    using collect_competitors_analysis [OF cb ws len, of ?target]
    unfolding R src ratings tips
    by (auto simp: py_round_examples)
qed

text \<open>
  The claim as stated reports the arithmetic means over the remaining set. Here two
  competitors remain, rated 9.0 and 0.0, with 1 and 2 tips. The mean rating over the two is
  4.5 and the mean tip count 1.5; the analysis reports 9.0 (the competitor rated 0.0 is left
  out of the mean) and 2.0 (1.5 rounded to a whole number).
\<close>

theorem collect_competitors_means_counterexample:
  "snd (collect_competitors ''2024-01-01T00:00:00''
          \<lparr>sources = [(''mock'', canned_source
              [[(''name'', PStr ''Sushi Zen''), (''rating'', PFloat 9),
                (''stats'', PDict [(''tip_count'', PInt 1)])],
               [(''name'', PStr ''Taco Fiesta''), (''rating'', PFloat 0),
                (''stats'', PDict [(''tip_count'', PInt 2)])]])]\<rparr>
          ''Pizza Palace'' ''New York'' [] 5)
   = Inr [(''success'', PBool True),
          (''source'', PStr ''mock''),
          (''target_business'', PStr ''Pizza Palace''),
          (''competitors_count'', PInt 2),
          (''competitors'',
           PList [PDict [(''name'', PStr ''Sushi Zen''), (''rating'', PFloat 9),
                         (''stats'', PDict [(''tip_count'', PInt 1)]), (''data_source'', PStr ''mock'')],
                  PDict [(''name'', PStr ''Taco Fiesta''), (''rating'', PFloat 0),
                         (''stats'', PDict [(''tip_count'', PInt 2)]), (''data_source'', PStr ''mock'')]]),
          (''analysis'',
           PDict [(''average_competitor_rating'', PFloat 9),
                  (''average_competitor_reviews'', PFloat 2),
                  (''market_saturation'', PInt 2)])]
   \<and> (9 + 0) / 2 \<noteq> (9 :: rat) \<and> (1 + 2) / 2 \<noteq> (2 :: rat)"
  by (simp add: collect_competitors_def collect_businesses.simps resolve_source_def
        get_primary_source_def get_available_sources_def canned_source_search search_result_def
        result_businesses_def result_source_def dict_get_def business_name_lower_def
        py_lower_examples sublist_code(3) py_slice_to_def competitor_averages_def
        ratings_of_def tip_count_of_def py_mean_one_float py_mean_two_ints py_round_examples)

section \<open>Properties of the budget governor\<close>

lemma dict_get_dict_set:
  "dict_get (dict_set d k v) k' = (if k' = k then Some v else dict_get d k')"
  by (induction d) (auto simp: dict_get_def)

lemma dict_get_Nil: "dict_get [] k = None"
  by (simp add: dict_get_def)

lemma usage_count_init_usage:
  "usage_count (init_usage b today api_name) d a = usage_count b d a"
  by (auto simp: usage_count_def init_usage_def Let_def dict_get_dict_set dict_get_Nil
           split: option.splits)

lemma init_usage_frame:
  "total_cost (init_usage b today api_name) = total_cost b"
  "monthly_usage (init_usage b today api_name) = monthly_usage b"
  "alerts_sent (init_usage b today api_name) = alerts_sent b"
  by (simp_all add: init_usage_def Let_def)

text \<open>
  C6 (as amended). \<open>can_make_request\<close> answers false exactly when today's count for
  the provider has reached its daily cap or the running total plus the tabulated cost of the
  operation exceeds the ceiling of 5. It never touches the file, the total, the alert log,
  the limits or the cost table, and it changes no count; in memory it creates today's entry
  and the provider's counter, at zero, when they are absent.
\<close>

theorem can_make_request_verdict_and_frame:
  "fst (can_make_request tr today api_name endpoint) =
     (\<not> (usage_count (budget_data tr) today api_name \<ge> daily_limit_of tr api_name)
      \<and> \<not> (fadd (total_cost (budget_data tr)) (cost_of tr api_name endpoint) > 5))
   \<and> snd (can_make_request tr today api_name endpoint) =
       tr\<lparr>budget_data := init_usage (budget_data tr) today api_name\<rparr>
   \<and> total_cost (budget_data (snd (can_make_request tr today api_name endpoint))) =
       total_cost (budget_data tr)
   \<and> alerts_sent (budget_data (snd (can_make_request tr today api_name endpoint))) =
       alerts_sent (budget_data tr)
   \<and> monthly_usage (budget_data (snd (can_make_request tr today api_name endpoint))) =
       monthly_usage (budget_data tr)
   \<and> (\<forall>d a. usage_count (budget_data (snd (can_make_request tr today api_name endpoint))) d a =
              usage_count (budget_data tr) d a)"
  by (simp add: can_make_request_def Let_def usage_count_init_usage init_usage_frame
        daily_limit_of_def cost_of_def)

text \<open>
  The claim as stated says that the call leaves the budget state completely unchanged. On a
  tracker constructed without a budget file, the first check for Yelp answers true and leaves
  a \<open>daily_usage\<close> that holds an entry for the day, which it did not hold before.
\<close>

theorem can_make_request_mutates_counterexample:
  "daily_usage (budget_data (fst (BudgetTracker_init None))) = []
   \<and> can_make_request (fst (BudgetTracker_init None)) ''2024-01-01'' ''yelp'' ''search''
     = (True, (fst (BudgetTracker_init None))
               \<lparr>budget_data := fresh_budget\<lparr>daily_usage := [(''2024-01-01'', [(''yelp'', 0)])]\<rparr>\<rparr>)
   \<and> budget_data (snd (can_make_request (fst (BudgetTracker_init None)) ''2024-01-01'' ''yelp'' ''search''))
     \<noteq> budget_data (fst (BudgetTracker_init None))"
  by (simp add: BudgetTracker_init_def load_budget_def fresh_budget_def can_make_request_def
        init_usage_def usage_count_def daily_limit_of_def cost_of_def dict_get_def fadd_def
        round_double_def Let_def)

lemma record_request_total:
  "total_cost (budget_data (fst (snd (record_request tr today today' api_name endpoint)))) =
     fadd (total_cost (budget_data tr)) (cost_of tr api_name endpoint)"
  by (simp add: record_request_def check_alerts_def Let_def init_usage_frame)

lemma record_request_cost:
  "fst (record_request tr today today' api_name endpoint) = cost_of tr api_name endpoint"
  by (simp add: record_request_def check_alerts_def Let_def)

lemma record_request_file:
  "snd (snd (record_request tr today today' api_name endpoint)) =
     Some (budget_data (fst (snd (record_request tr today today' api_name endpoint))))"
  by (simp add: record_request_def check_alerts_def save_budget_def Let_def)

lemma record_request_tables:
  "daily_limits (fst (snd (record_request tr today today' api_name endpoint))) = daily_limits tr"
  "cost_per_request (fst (snd (record_request tr today today' api_name endpoint))) = cost_per_request tr"
  by (simp_all add: record_request_def check_alerts_def Let_def)

lemma cost_of_cong: "cost_per_request tr' = cost_per_request tr \<Longrightarrow> cost_of tr' a e = cost_of tr a e"
  by (simp add: cost_of_def)

lemma record_all_tables:
  "daily_limits (fst (record_all tr store rs)) = daily_limits tr
   \<and> cost_per_request (fst (record_all tr store rs)) = cost_per_request tr"
proof (induction rs arbitrary: tr store)
  case Nil
  then show ?case by simp
next
  case (Cons r rs)
  obtain today today' api_name endpoint where r: "r = (today, today', api_name, endpoint)"
    by (cases r) auto
  obtain cost tr' store' where rr: "record_request tr today today' api_name endpoint = (cost, tr', store')"
    by (cases "record_request tr today today' api_name endpoint") auto
  have "daily_limits tr' = daily_limits tr" "cost_per_request tr' = cost_per_request tr"
    using record_request_tables [of tr today today' api_name endpoint] rr by simp_all
  then show ?case
    using Cons.IH [of tr' store'] by (simp add: r rr)
qed

lemma record_all_total:
  "total_cost (budget_data (fst (record_all tr store rs))) =
     foldl fadd (total_cost (budget_data tr)) (recorded_costs tr rs)"
proof (induction rs arbitrary: tr store)
  case Nil
  then show ?case by (simp add: recorded_costs_def)
next
  case (Cons r rs)
  obtain today today' api_name endpoint where r: "r = (today, today', api_name, endpoint)"
    by (cases r) auto
  obtain cost tr' store' where rr: "record_request tr today today' api_name endpoint = (cost, tr', store')"
    by (cases "record_request tr today today' api_name endpoint") auto
  have tot: "total_cost (budget_data tr') = fadd (total_cost (budget_data tr)) (cost_of tr api_name endpoint)"
    using record_request_total [of tr today today' api_name endpoint] rr by simp
  have "cost_per_request tr' = cost_per_request tr"
    using record_request_tables [of tr today today' api_name endpoint] rr by simp
  then have costs: "recorded_costs tr' rs = recorded_costs tr rs"
    by (simp add: recorded_costs_def cost_of_def)
  have "recorded_costs tr (r # rs) = cost_of tr api_name endpoint # recorded_costs tr rs"
    by (simp add: r recorded_costs_def)
  then show ?case
    using Cons.IH [of tr' store'] by (simp add: r rr tot costs)
qed

lemma record_all_file:
  assumes "store = Some (budget_data tr)"
  shows "snd (record_all tr store rs) = Some (budget_data (fst (record_all tr store rs)))"
  using assms
proof (induction rs arbitrary: tr store)
  case Nil
  then show ?case by simp
next
  case (Cons r rs)
  obtain today today' api_name endpoint where r: "r = (today, today', api_name, endpoint)"
    by (cases r) auto
  obtain cost tr' store' where rr: "record_request tr today today' api_name endpoint = (cost, tr', store')"
    by (cases "record_request tr today today' api_name endpoint") auto
  have "store' = Some (budget_data tr')"
    using record_request_file [of tr today today' api_name endpoint] rr by simp
  then show ?case
    using Cons.IH [of store' tr'] by (simp add: r rr)
qed

lemma BudgetTracker_init_reload:
  "budget_data (fst (BudgetTracker_init (Some d))) = d \<and> snd (BudgetTracker_init (Some d)) = Some d"
  by (simp add: BudgetTracker_init_def load_budget_def)

lemma round_double_0017: "round_double (17 / 1000) = 1224979098644775 / 72057594037927936"
  using round_double_eq [of "-58" "17/1000"]
  by (simp add: round_half_even_eval)

lemma round_double_001: "round_double (1 / 100) = 5764607523034235 / 576460752303423488"
  using round_double_eq [of "-59" "1/100"]
  by (simp add: round_half_even_eval)

text \<open>
  C4 (as amended). After any run of \<open>record_request\<close> calls the total is the
  left-to-right double-precision sum of the starting total and the tabulated costs
  \<open>c_1..c_k\<close>. It is within \<open>1e-9\<close> of the exact sum whenever the starting total and the
  costs are not negative, the exact sum is at most 7 and the run has at most a million
  calls. Every call leaves the file equal to the state in memory, and a tracker constructed
  from that file afterwards holds the same state, so the same total.
\<close>

theorem record_requests_accumulate_and_persist:
  assumes "0 \<le> total_cost (budget_data tr)"
    and "\<forall>c \<in> set (recorded_costs tr rs). 0 \<le> c"
    and "total_cost (budget_data tr) + sum_list (recorded_costs tr rs) \<le> 7"
    and "length rs \<le> 1000000"
    and "store = Some (budget_data tr)"
  shows "total_cost (budget_data (fst (record_all tr store rs))) =
           foldl fadd (total_cost (budget_data tr)) (recorded_costs tr rs)
         \<and> \<bar>total_cost (budget_data (fst (record_all tr store rs)))
              - (total_cost (budget_data tr) + sum_list (recorded_costs tr rs))\<bar> \<le> 1 / 10 ^ 9
         \<and> snd (record_all tr store rs) = Some (budget_data (fst (record_all tr store rs)))
         \<and> (\<forall>today today' api_name endpoint.
               snd (snd (record_request tr today today' api_name endpoint)) =
               Some (budget_data (fst (snd (record_request tr today today' api_name endpoint)))))
         \<and> budget_data (fst (BudgetTracker_init (snd (record_all tr store rs)))) =
             budget_data (fst (record_all tr store rs))
         \<and> total_cost (budget_data (fst (BudgetTracker_init (snd (record_all tr store rs))))) =
             total_cost (budget_data (fst (record_all tr store rs)))"
proof -
  have len: "length (recorded_costs tr rs) \<le> 1000000"
    using assms(4) by (simp add: recorded_costs_def)
  have tol: "\<bar>foldl fadd (total_cost (budget_data tr)) (recorded_costs tr rs)
               - (total_cost (budget_data tr) + sum_list (recorded_costs tr rs))\<bar> \<le> 1 / 10 ^ 9"
    by (rule fadd_fold_within_tolerance [OF assms(1) assms(2) assms(3) len])
  have stored: "snd (record_all tr store rs) = Some (budget_data (fst (record_all tr store rs)))"
    by (rule record_all_file [OF assms(5)])
  show ?thesis
    using tol by (simp add: record_all_total stored BudgetTracker_init_reload record_request_file)
qed

theorem record_requests_accumulate_and_persist_witness:
  "\<bar>total_cost (budget_data (fst (record_all (fst (BudgetTracker_init None)) (Some fresh_budget)
        [(''2024-01-01'', ''2024-01-01'', ''google_places'', ''search''),
         (''2024-01-01'', ''2024-01-01'', ''yelp'', ''search'')])))
     - (total_cost (budget_data (fst (BudgetTracker_init None)))
        + sum_list (recorded_costs (fst (BudgetTracker_init None))
            [(''2024-01-01'', ''2024-01-01'', ''google_places'', ''search''),
             (''2024-01-01'', ''2024-01-01'', ''yelp'', ''search'')]))\<bar> \<le> 1 / 10 ^ 9
   \<and> snd (record_all (fst (BudgetTracker_init None)) (Some fresh_budget)
        [(''2024-01-01'', ''2024-01-01'', ''google_places'', ''search''),
         (''2024-01-01'', ''2024-01-01'', ''yelp'', ''search'')])
     = Some (budget_data (fst (record_all (fst (BudgetTracker_init None)) (Some fresh_budget)
        [(''2024-01-01'', ''2024-01-01'', ''google_places'', ''search''),
         (''2024-01-01'', ''2024-01-01'', ''yelp'', ''search'')])))
   \<and> recorded_costs (fst (BudgetTracker_init None))
        [(''2024-01-01'', ''2024-01-01'', ''google_places'', ''search''),
         (''2024-01-01'', ''2024-01-01'', ''yelp'', ''search'')]
     = [1224979098644775 / 72057594037927936, 0]"
proof -
  let ?tr = "fst (BudgetTracker_init None)"
  let ?rs = "[(''2024-01-01'', ''2024-01-01'', ''google_places'', ''search''),
              (''2024-01-01'', ''2024-01-01'', ''yelp'', ''search'')]"
  have costs: "recorded_costs ?tr ?rs = [1224979098644775 / 72057594037927936, 0]"
    by (simp add: BudgetTracker_init_def load_budget_def recorded_costs_def cost_of_def
          dict_get_def round_double_0017)
  have start: "total_cost (budget_data ?tr) = 0"
    by (simp add: BudgetTracker_init_def load_budget_def fresh_budget_def)
  have h1: "0 \<le> total_cost (budget_data ?tr)"
    by (simp add: start)
  have h2: "\<forall>c \<in> set (recorded_costs ?tr ?rs). 0 \<le> c"
    unfolding costs by simp
  have h3: "total_cost (budget_data ?tr) + sum_list (recorded_costs ?tr ?rs) \<le> 7"
    unfolding costs start by simp
  have h4: "length ?rs \<le> 1000000"
    by simp
  have h5: "Some fresh_budget = Some (budget_data ?tr)"
    by (simp add: BudgetTracker_init_def load_budget_def)
  show ?thesis
    using record_requests_accumulate_and_persist [OF h1 h2 h3 h4 h5] costs by blast
qed

text \<open>
  The claim as stated bounds the distance to the exact sum by \<open>1e-9\<close> for every starting
  state. A tracker loaded from a file whose total is \<open>2 ^ 53\<close> records a Yelp review
  request at the default cost of \<open>0.01\<close>, and the total does not move: next to so large a
  double the cent is rounded away.
\<close>

theorem record_request_tolerance_counterexample:
  "fst (record_request
          (fst (BudgetTracker_init (Some (fresh_budget\<lparr>total_cost := 9007199254740992\<rparr>))))
          ''2024-01-01'' ''2024-01-01'' ''yelp'' ''reviews'')
     = 5764607523034235 / 576460752303423488
   \<and> total_cost (budget_data (fst (snd (record_request
          (fst (BudgetTracker_init (Some (fresh_budget\<lparr>total_cost := 9007199254740992\<rparr>))))
          ''2024-01-01'' ''2024-01-01'' ''yelp'' ''reviews''))))
     = 9007199254740992
   \<and> \<not> \<bar>total_cost (budget_data (fst (snd (record_request
          (fst (BudgetTracker_init (Some (fresh_budget\<lparr>total_cost := 9007199254740992\<rparr>))))
          ''2024-01-01'' ''2024-01-01'' ''yelp'' ''reviews''))))
        - (9007199254740992 + 5764607523034235 / 576460752303423488)\<bar> \<le> 1 / 10 ^ 9"
proof -
  have rd: "round_double (5192296858534827634295103852254331 / 576460752303423488) = 9007199254740992"
    using round_double_eq [of "1" "5192296858534827634295103852254331 / 576460752303423488"]
    by (simp add: round_half_even_eval)
  show ?thesis
    unfolding record_request_total record_request_cost
    by (simp add: BudgetTracker_init_def load_budget_def fresh_budget_def cost_of_def
          dict_get_def round_double_001 fadd_def rd)
qed

section \<open>Properties of the rate governor\<close>

text \<open>What \<open>wait_if_needed\<close> does right: a limiter with a positive limit never raises and
  never rejects, every call records its \<open>now\<close>, and a sleep is positive and lasts
  \<open>60 - (now - oldest)\<close> for the oldest timestamp that survived the pruning.\<close>

lemma wait_if_needed_admits:
  assumes "1 \<le> requests_per_minute rl"
  shows "\<exists>slept. wait_if_needed rl now =
           Inr (slept, rl\<lparr>request_times := filter (\<lambda>t. fsub now t < 60) (request_times rl) @ [now]\<rparr>)
         \<and> (case slept of
               None \<Rightarrow> True
             | Some w \<Rightarrow> 0 < w
                 \<and> w = fsub 60 (fsub now (min_list (filter (\<lambda>t. fsub now t < 60) (request_times rl))))
                 \<and> requests_per_minute rl \<le> int (length (filter (\<lambda>t. fsub now t < 60) (request_times rl))))"
  using assms by (auto simp: wait_if_needed_def Let_def)

text \<open>
  C5, at the failing input. A limiter with limit 2 is called at times 0, 1 and 2, and twice
  more as soon as the previous call has returned. The third call sleeps 58 seconds, but it
  records the time it arrived, not the time it was let through: the window then holds three
  timestamps within two seconds, and the calls go out at 60, 61 and 62, three requests
  within two seconds.
\<close>

theorem rate_limiter_three_admissions_in_two_seconds:
  "wait_if_needed \<lparr>requests_per_minute = 2, request_times = [0, 1]\<rparr> 2
     = Inr (Some 58, \<lparr>requests_per_minute = 2, request_times = [0, 1, 2]\<rparr>)
   \<and> admissions \<lparr>requests_per_minute = 2, request_times = []\<rparr> 0 [0, 1, 2, 60, 61]
     = Inr [0, 1, 60, 61, 62]"
  by (simp add: wait_if_needed_def fsub_def Let_def round_double_small_int)

section \<open>Properties of the Foursquare adapter\<close>

lemma set_clean_empty:
  "set (clean_empty business) =
     {(k, v). (k, v) \<in> set business \<and> v \<noteq> PNone \<and> v \<noteq> PStr [] \<and> v \<noteq> PList [] \<and> v \<noteq> PDict []}"
  by (auto simp: clean_empty_def)

lemma format_business_body_nonempty:
  assumes "format_business_body place_data = Inr business"
  shows "(''source'', PStr ''foursquare'') \<in> set business"
  using assms
  by (auto simp: format_business_body_def set_clean_empty split: pyval.splits sum.splits)

lemma format_places_append:
  "format_places self (xs @ ys) = format_places self xs @ format_places self ys"
  by (simp add: format_places_def)

lemma format_places_Cons_failed:
  "format_business_body place_data = Inl e \<Longrightarrow>
     format_places self (place_data # rest) = format_places self rest"
  by (simp add: format_places_def format_business_def)

lemma format_places_Cons_formatted:
  assumes "format_business_body place_data = Inr business"
  shows "format_places self (place_data # rest) = business # format_places self rest"
proof -
  have "business \<noteq> []"
    using format_business_body_nonempty [OF assms] by auto
  then show ?thesis
    using assms by (simp add: format_places_def format_business_def)
qed

text \<open>What a search returns on a cache miss when the reply decodes: the formatted places
  of the reply, whatever the adapter's credentials and whatever else the cache holds.\<close>

lemma FoursquareSource_search_businesses_miss:
  assumes "dict_get cache (search_cache_key location query category limit) = None"
    and "search_request_of self location query category radius limit = (url, hdrs, params)"
    and "net url hdrs params = Reply status (Some data)" and "status < 400"
    and "places_of self data = Inr places" and "slice_places places limit = Inr ps"
  shows "FoursquareSource_search_businesses self cache net location query category radius limit =
           ([CacheGet (search_cache_key location query category limit), HttpGet url hdrs params,
             CacheSet (search_cache_key location query category limit) 300],
            dict_set cache (search_cache_key location query category limit) (format_places self ps),
            Inr (format_places self ps))"
  using assms by (simp add: FoursquareSource_search_businesses_def Let_def)

text \<open>
  C9. Formatting a Foursquare place depends on the payload alone: two adapters, whatever
  their credentials, give the same canonical dictionary for the same payload, and the same
  list for the same batch. A payload on which the formatting raises gives \<open>None\<close> and is
  left out of the batch, whose other places are formatted as they are without it; a payload
  that formats is kept in its place.
\<close>

theorem format_business_pure_and_failures_dropped:
  "format_business self place_data = format_business self' place_data
   \<and> format_places self places = format_places self' places
   \<and> (\<forall>e. format_business_body place_data = Inl e \<longrightarrow>
          format_business self place_data = None
          \<and> format_places self (before @ place_data # after) =
              format_places self before @ format_places self after)
   \<and> (\<forall>business. format_business_body place_data = Inr business \<longrightarrow>
          format_business self place_data = Some business
          \<and> format_places self (before @ place_data # after) =
              format_places self before @ business # format_places self after)"
  by (auto simp: format_business_def format_places_append format_places_Cons_failed
        format_places_Cons_formatted)
     (simp_all add: format_places_def format_business_def)

theorem format_business_pure_and_failures_dropped_witness:
  "format_business_body (PDict [(''name'', PStr ''Broken''), (''location'', PNone)]) = Inl AttributeError
   \<and> format_business \<lparr>client_id = None, client_secret = None, api_key = Some ''key''\<rparr>
        (PDict [(''name'', PStr ''Broken''), (''location'', PNone)]) = None
   \<and> format_places \<lparr>client_id = None, client_secret = None, api_key = Some ''key''\<rparr>
        ([PDict [(''fsq_id'', PStr ''a1''), (''name'', PStr ''Cafe'')]]
         @ PDict [(''name'', PStr ''Broken''), (''location'', PNone)]
         # [PDict [(''fsq_id'', PStr ''b2''), (''name'', PStr ''Diner'')]])
     = [[(''id'', PStr ''a1''), (''name'', PStr ''Cafe''), (''source'', PStr ''foursquare''),
         (''raw_data'', PDict [(''fsq_id'', PStr ''a1''), (''name'', PStr ''Cafe'')])],
        [(''id'', PStr ''b2''), (''name'', PStr ''Diner''), (''source'', PStr ''foursquare''),
         (''raw_data'', PDict [(''fsq_id'', PStr ''b2''), (''name'', PStr ''Diner'')])]]"
proof -
  have bad: "format_business_body (PDict [(''name'', PStr ''Broken''), (''location'', PNone)])
               = Inl AttributeError"
    by (simp add: format_business_body_def py_get_def py_iter_def dget_def dict_get_def)
  have good: "format_places \<lparr>client_id = None, client_secret = None, api_key = Some ''key''\<rparr>
                [PDict [(''fsq_id'', PStr n), (''name'', PStr m)]]
              = [[(''id'', PStr n), (''name'', PStr m), (''source'', PStr ''foursquare''),
                  (''raw_data'', PDict [(''fsq_id'', PStr n), (''name'', PStr m)])]]"
    if "n \<noteq> []" and "m \<noteq> []" for n m
    using that
    by (simp add: format_places_def format_business_def format_business_body_def py_get_def
          py_iter_def dget_def dict_get_def clean_empty_def py_or_def category_name_def)
  show ?thesis
    using format_business_pure_and_failures_dropped
            [of "\<lparr>client_id = None, client_secret = None, api_key = Some ''key''\<rparr>"
                "PDict [(''name'', PStr ''Broken''), (''location'', PNone)]"
                "\<lparr>client_id = None, client_secret = None, api_key = Some ''key''\<rparr>"
                "[]"
                "[PDict [(''fsq_id'', PStr ''a1''), (''name'', PStr ''Cafe'')]]"
                "[PDict [(''fsq_id'', PStr ''b2''), (''name'', PStr ''Diner'')]]"]
          bad good [of "''a1''" "''Cafe''"] good [of "''b2''" "''Diner''"]
    by simp
qed

lemma FoursquareSource_search_businesses_events:
  "\<forall>ev \<in> set (fst (FoursquareSource_search_businesses self cache net location query category radius limit)).
     (\<exists>k. ev = CacheGet k) \<or> (\<exists>k t. ev = CacheSet k t) \<or> (\<exists>u h p. ev = HttpGet u h p)"
  by (auto simp: FoursquareSource_search_businesses_def Let_def
           split: prod.splits http_reply.splits option.splits sum.splits)

lemma YelpSource_search_businesses_events:
  "fst (YelpSource_search_businesses format_yelp self store net today today' now
          location term categories radius limit)
   \<in> {[BudgetCheck ''yelp'' ''search''],
       [BudgetCheck ''yelp'' ''search'', RateWait],
       [BudgetCheck ''yelp'' ''search'', RateWait,
        HttpGet ''https://api.yelp.com/v3/businesses/search'' (yelp_headers self)
          (yelp_params location term categories radius limit)],
       [BudgetCheck ''yelp'' ''search'', RateWait,
        HttpGet ''https://api.yelp.com/v3/businesses/search'' (yelp_headers self)
          (yelp_params location term categories radius limit),
        BudgetRecord ''yelp'' ''search'']}"
  by (auto simp: YelpSource_search_businesses_def
           split: prod.splits http_reply.splits option.splits sum.splits)

text \<open>
  C2, at the failing input. A Foursquare search that misses the cache goes from the cache
  lookup straight to the network: its events are the cache lookup, the GET and the cache
  store, with no budget check and no rate wait before the GET. The same search through the
  Yelp adapter checks the budget and waits on the rate limiter first.
\<close>

theorem foursquare_search_skips_governors:
  "fst (FoursquareSource_search_businesses
          \<lparr>client_id = None, client_secret = None, api_key = Some ''key''\<rparr> []
          (\<lambda>url hdrs params. Reply 200 (Some (PDict [(''results'', PList [])])))
          ''New York'' [] [] 5000 10)
     = [CacheGet (search_cache_key ''New York'' [] [] 10),
        HttpGet ''https://api.foursquare.com/v3/places/search''
          (headers \<lparr>client_id = None, client_secret = None, api_key = Some ''key''\<rparr>)
          (search_params ''New York'' [] [] 5000 10),
        CacheSet (search_cache_key ''New York'' [] [] 10) 300]
   \<and> fst (YelpSource_search_businesses (\<lambda>b. None)
          \<lparr>yelp_api_key = ''key'', budget_tracker = fst (BudgetTracker_init None),
            rate_limiter = \<lparr>requests_per_minute = 10, request_times = []\<rparr>\<rparr>
          (Some fresh_budget)
          (\<lambda>url hdrs params. Reply 200 (Some (PDict [(''businesses'', PList [])])))
          ''2024-01-01'' ''2024-01-01'' 0 ''New York'' [] [] 1000 20)
     = [BudgetCheck ''yelp'' ''search'', RateWait,
        HttpGet ''https://api.yelp.com/v3/businesses/search''
          (yelp_headers \<lparr>yelp_api_key = ''key'', budget_tracker = fst (BudgetTracker_init None),
             rate_limiter = \<lparr>requests_per_minute = 10, request_times = []\<rparr>\<rparr>)
          (yelp_params ''New York'' [] [] 1000 20),
        BudgetRecord ''yelp'' ''search'']"
proof -
  have fs: "FoursquareSource_search_businesses
          \<lparr>client_id = None, client_secret = None, api_key = Some ''key''\<rparr> []
          (\<lambda>url hdrs params. Reply 200 (Some (PDict [(''results'', PList [])])))
          ''New York'' [] [] 5000 10
     = ([CacheGet (search_cache_key ''New York'' [] [] 10),
         HttpGet ''https://api.foursquare.com/v3/places/search''
           (headers \<lparr>client_id = None, client_secret = None, api_key = Some ''key''\<rparr>)
           (search_params ''New York'' [] [] 5000 10),
         CacheSet (search_cache_key ''New York'' [] [] 10) 300],
        dict_set [] (search_cache_key ''New York'' [] [] 10)
          (format_places \<lparr>client_id = None, client_secret = None, api_key = Some ''key''\<rparr> []),
        Inr (format_places \<lparr>client_id = None, client_secret = None, api_key = Some ''key''\<rparr> []))"
    by (rule FoursquareSource_search_businesses_miss [where status = 200
               and data = "PDict [(''results'', PList [])]" and places = "PList []"])
       (simp_all add: dict_get_def search_request_of_def truthy_setting_def places_of_def
          py_get_def dget_def slice_places_def py_slice_to_def)
  have allowed: "fst (can_make_request (fst (BudgetTracker_init None)) ''2024-01-01'' ''yelp'' ''search'')"
    by (simp add: BudgetTracker_init_def load_budget_def fresh_budget_def can_make_request_def
          init_usage_def usage_count_def daily_limit_of_def cost_of_def dict_get_def fadd_def
          round_double_def Let_def)
  have yelp: "fst (YelpSource_search_businesses (\<lambda>b. None)
          \<lparr>yelp_api_key = ''key'', budget_tracker = fst (BudgetTracker_init None),
            rate_limiter = \<lparr>requests_per_minute = 10, request_times = []\<rparr>\<rparr>
          (Some fresh_budget)
          (\<lambda>url hdrs params. Reply 200 (Some (PDict [(''businesses'', PList [])])))
          ''2024-01-01'' ''2024-01-01'' 0 ''New York'' [] [] 1000 20)
     = [BudgetCheck ''yelp'' ''search'', RateWait,
        HttpGet ''https://api.yelp.com/v3/businesses/search''
          (yelp_headers \<lparr>yelp_api_key = ''key'', budget_tracker = fst (BudgetTracker_init None),
             rate_limiter = \<lparr>requests_per_minute = 10, request_times = []\<rparr>\<rparr>)
          (yelp_params ''New York'' [] [] 1000 20),
        BudgetRecord ''yelp'' ''search'']"
    using allowed
    by (auto simp: YelpSource_search_businesses_def wait_if_needed_def split: prod.splits)
  show ?thesis
    unfolding fs yelp by simp
qed

end
